theory Spec2Isabelle
  imports Complex_Main "HOL-Library.Multiset"
begin

section \<open>Python values: errors, truthiness, indexing, strings\<close>

text \<open>
  The module \<^verbatim>\<open>src/training/data.py\<close> builds data loaders for training. Every exception
  the module can raise is a value of \<open>error\<close>; a function that may raise returns
  \<open>error + 'a\<close>, with \<open>Inl\<close> for the exception.
\<close>

datatype error =
    AssertionError
  | ValueError string
  | KeyError string
  | IndexError
  | TypeError
  | AttributeError
  | ZeroDivisionError
  | OverflowError
  | RuntimeError string
  | OSError string

text \<open>Command-line arguments that hold a path are \<open>None\<close> or a string; Python treats
  \<open>None\<close> and the empty string as false.\<close>

definition truthy :: "string option \<Rightarrow> bool" where
  "truthy v = (case v of None \<Rightarrow> False | Some s \<Rightarrow> s \<noteq> [])"

text \<open>\<^verbatim>\<open>xs[i]\<close>: a negative index counts from the end, an index out of range raises.\<close>

definition py_index :: "'a list \<Rightarrow> int \<Rightarrow> error + 'a" where
  "py_index xs i =
     (let n = int (length xs); j = (if i < 0 then i + n else i)
      in if j < 0 \<or> n \<le> j then Inl IndexError else Inr (xs ! nat j))"

text \<open>\<^verbatim>\<open>xs[:k]\<close>: a negative bound counts from the end; bounds are clamped.\<close>

definition py_slice_to :: "'a list \<Rightarrow> int \<Rightarrow> 'a list" where
  "py_slice_to xs k = (if 0 \<le> k then take (nat k) xs else take (nat (int (length xs) + k)) xs)"

text \<open>\<^verbatim>\<open>s.split(sep)\<close> for a one-character separator: \<open>cur\<close> is the piece being read.\<close>

fun split_from :: "char \<Rightarrow> string \<Rightarrow> string \<Rightarrow> string list" where
  "split_from sep cur [] = [cur]"
| "split_from sep cur (c # cs) =
     (if c = sep then cur # split_from sep [] cs else split_from sep (cur @ [c]) cs)"

definition py_split :: "string \<Rightarrow> char \<Rightarrow> string list" where
  "py_split s sep = split_from sep [] s"

section \<open>Choosing the dataset constructor\<close>

text \<open>The two functions \<^verbatim>\<open>get_dataset_fn\<close> can return, as names.\<close>

datatype dataset_fn = Get_wds_dataset | Get_csv_dataset

definition get_dataset_fn :: "string \<Rightarrow> string \<Rightarrow> error + dataset_fn" where
  "get_dataset_fn data_path dataset_type =
     (if dataset_type = ''webdataset'' then Inr Get_wds_dataset
      else if dataset_type = ''csv'' then Inr Get_csv_dataset
      else if dataset_type = ''auto'' then
        (case py_index (py_split data_path CHR ''.'') (- 1) of
           Inl e \<Rightarrow> Inl e
         | Inr ext \<Rightarrow>
             if ext \<in> set [''csv'', ''tsv''] then Inr Get_csv_dataset
             else if ext \<in> set [''tar''] then Inr Get_wds_dataset
             else Inl (ValueError
               (''Tried to figure out dataset type, but failed for extention '' @ ext @ ''.'')))
      else Inl (ValueError (''Unsupported dataset type: '' @ dataset_type)))"

text \<open>The final dot-separated component of a path, read off the path directly: the
  characters after its last dot, or the whole path when it has no dot.\<close>

definition final_component :: "string \<Rightarrow> string" where
  "final_component p = rev (takeWhile (\<lambda>c. c \<noteq> CHR ''.'') (rev p))"

section \<open>Paths\<close>

text \<open>\<^verbatim>\<open>os.path.basename\<close>, \<^verbatim>\<open>os.path.dirname\<close> and \<^verbatim>\<open>os.path.join\<close> (of two parts) on
  POSIX paths, as the standard library computes them.\<close>

definition os_path_basename :: "string \<Rightarrow> string" where
  "os_path_basename p = rev (takeWhile (\<lambda>c. c \<noteq> CHR ''/'') (rev p))"

definition os_path_dirname :: "string \<Rightarrow> string" where
  "os_path_dirname p =
     (let head = rev (dropWhile (\<lambda>c. c \<noteq> CHR ''/'') (rev p))
      in if head \<noteq> [] \<and> \<not> list_all (\<lambda>c. c = CHR ''/'') head
         then rev (dropWhile (\<lambda>c. c = CHR ''/'') (rev head))
         else head)"

definition os_path_join :: "string \<Rightarrow> string \<Rightarrow> string" where
  "os_path_join a b =
     (if b \<noteq> [] \<and> hd b = CHR ''/'' then b
      else if a = [] \<or> last a = CHR ''/'' then a @ b
      else a @ ''/'' @ b)"

section \<open>Command-line arguments\<close>

text \<open>The fields of \<^verbatim>\<open>args\<close> that the module reads.\<close>

record args =
  train_index :: "string option"
  val_index :: "string option"
  data_mols :: "string option"
  image_path :: "string option"
  train_data :: "string option"
  val_data :: "string option"
  imagenet_train :: "string option"
  imagenet_val :: "string option"
  imagenet_v2 :: "string option"
  csv_img_key :: string
  csv_caption_key :: string
  csv_separator :: string
  path_data :: string
  debug_run :: bool
  distributed :: bool
  seed :: int
  batch_size :: int
  batch_size_eval :: int
  workers :: int
  world_size :: int

section \<open>Datasets, samplers, loaders\<close>

text \<open>
  A cell of a data frame is a string, or a value that is not a string (a number, or the
  float \<^verbatim>\<open>nan\<close> of a missing value), kept with the text \<^verbatim>\<open>str\<close> gives for it.
\<close>

datatype cell = Str string | NotStr string

fun py_str :: "cell \<Rightarrow> string" where
  "py_str (Str s) = s"
| "py_str (NotStr s) = s"

text \<open>
  A dataset is one of the classes the module instantiates. \<open>'f\<close> is the type of the
  preprocessing functions, which the module only passes on. Each constructor keeps the
  arguments of the call; where the length of the dataset is fixed by files on disk it is
  kept as the last argument (\<open>None\<close> for a web dataset without a length).
\<close>

datatype 'f dataset =
    CellPainting "string option" "string option" "string option" 'f nat
  | CsvDataset (images: "string list") (captions: "cell list") (transforms: 'f)
  | ImageFolder string 'f "int list"
  | ImageNetV2Dataset "string option" 'f nat
  | WebDataset string bool bool 'f int bool "nat option"
  | Subset "'f dataset" "nat list"

text \<open>\<^verbatim>\<open>len(dataset)\<close>.\<close>

fun py_len :: "'f dataset \<Rightarrow> error + nat" where
  "py_len (CellPainting _ _ _ _ n) = Inr n"
| "py_len (CsvDataset imgs caps _) = Inr (length caps)"
| "py_len (ImageFolder _ _ targets) = Inr (length targets)"
| "py_len (ImageNetV2Dataset _ _ n) = Inr n"
| "py_len (WebDataset _ _ _ _ _ _ l) = (case l of None \<Rightarrow> Inl TypeError | Some n \<Rightarrow> Inr n)"
| "py_len (Subset _ idcs) = Inr (length idcs)"

text \<open>\<^verbatim>\<open>dataset.targets\<close>: only an image folder has the attribute.\<close>

fun py_targets :: "'f dataset \<Rightarrow> error + int list" where
  "py_targets (ImageFolder _ _ targets) = Inr targets"
| "py_targets _ = Inl AttributeError"

text \<open>A web dataset is iterable; every other dataset is indexed.\<close>

fun iterable :: "'f dataset \<Rightarrow> bool" where
  "iterable (WebDataset _ _ _ _ _ _ _) = True"
| "iterable _ = False"

datatype 'f sampler =
    DistributedSampler "'f dataset" int
  | SubsetRandomSampler "nat list"

text \<open>
  A loader is the keyword arguments of its construction (\<open>dl_batch_size\<close> is \<open>None\<close> for
  the web loader, \<open>dl_repeat_slice\<close> records \<^verbatim>\<open>.repeat(r).slice(n)\<close>) and the two
  attributes the module adds afterwards, absent until they are assigned.
\<close>

record 'f dataloader =
  dl_dataset :: "'f dataset"
  dl_batch_size :: "int option"
  dl_shuffle :: bool
  dl_num_workers :: int
  dl_pin_memory :: bool
  dl_sampler :: "'f sampler option"
  dl_drop_last :: bool
  dl_repeat_slice :: "(nat \<times> int) option"
  num_samples :: "int option"
  num_batches :: "int option"

record 'f DataInfo =
  dataloader :: "'f dataloader"
  sampler :: "'f sampler option"

section \<open>The world outside the module\<close>

text \<open>A data frame: the column names and the rows of cells.\<close>

record dataframe =
  df_columns :: "string list"
  df_rows :: "cell list list"

text \<open>\<^verbatim>\<open>df[key].tolist()\<close>: the cell of every row in that column (a missing cell is the
  float \<^verbatim>\<open>nan\<close>); an unknown column raises.\<close>

fun index_of :: "'a \<Rightarrow> 'a list \<Rightarrow> nat option" where
  "index_of x [] = None"
| "index_of x (y # ys) = (if x = y then Some 0 else map_option Suc (index_of x ys))"

definition df_column :: "dataframe \<Rightarrow> string \<Rightarrow> error + cell list" where
  "df_column df key =
     (case index_of key (df_columns df) of
        None \<Rightarrow> Inl (KeyError key)
      | Some j \<Rightarrow> Inr (map (\<lambda>row. if j < length row then row ! j else NotStr ''nan'') (df_rows df)))"

text \<open>
  What the libraries and the file system answer. \<open>new_CellPainting\<close>, \<open>new_ImageFolder\<close>
  and \<open>new_ImageNetV2Dataset\<close> give the length (the class labels, for an image folder) of
  the dataset the constructor builds, \<open>read_sizes\<close> the dictionary of integer sizes a
  size manifest evaluates to, \<open>np_shuffle w k\<close> the rearrangement made by the \<open>k\<close>-th call of
  \<^verbatim>\<open>np.random.shuffle\<close>, \<open>len_DataLoader\<close> the number of batches of a loader.
  \<open>float_ceil_quotient x y\<close> is \<^verbatim>\<open>math.ceil(x / y)\<close> where the float quotient is not
  exact enough to give the ceiling of the fraction (\<open>None\<close> when the division overflows).
\<close>

record 'f world =
  read_csv :: "string \<Rightarrow> string \<Rightarrow> error + dataframe"
  new_CellPainting :: "string option \<Rightarrow> string option \<Rightarrow> string option \<Rightarrow> error + nat"
  new_ImageFolder :: "string \<Rightarrow> error + int list"
  new_ImageNetV2Dataset :: "string option \<Rightarrow> error + nat"
  braceexpand :: "string \<Rightarrow> error + string list"
  read_sizes :: "string \<Rightarrow> error + (string \<Rightarrow> int option)"
  len_WebDataset :: "string \<Rightarrow> nat option"
  np_shuffle :: "nat \<Rightarrow> nat list \<Rightarrow> nat list"
  len_DataLoader :: "'f dataloader \<Rightarrow> int"
  float_ceil_quotient :: "int \<Rightarrow> int \<Rightarrow> int option"

text \<open>The world after \<open>n\<close> calls of the shuffle.\<close>

definition rng_skip :: "nat \<Rightarrow> 'f world \<Rightarrow> 'f world" where
  "rng_skip n w = w\<lparr>np_shuffle := (\<lambda>k. np_shuffle w (n + k))\<rparr>"

text \<open>Every shuffle rearranges its argument.\<close>

definition shuffle_permutes :: "(nat list \<Rightarrow> nat list) \<Rightarrow> bool" where
  "shuffle_permutes f = (\<forall>xs. mset (f xs) = mset xs)"

section \<open>The debug subset\<close>

definition get_data_subset :: "(nat list \<Rightarrow> nat list) \<Rightarrow> 'f dataset \<Rightarrow> int \<Rightarrow> error + 'f dataset" where
  "get_data_subset shuffle dataset n_samples =
     (case py_len dataset of
        Inl e \<Rightarrow> Inl e
      | Inr n \<Rightarrow>
          let idcs = [0..<n];
              n_samples = min n_samples (int n);
              idcs = shuffle idcs;
              new_idcs = py_slice_to idcs n_samples
          in Inr (Subset dataset new_idcs))"

text \<open>The call with the default \<^verbatim>\<open>n_samples=1000\<close>.\<close>

definition get_data_subset_default :: "(nat list \<Rightarrow> nat list) \<Rightarrow> 'f dataset \<Rightarrow> error + 'f dataset" where
  "get_data_subset_default shuffle dataset = get_data_subset shuffle dataset 1000"

section \<open>The CSV dataset\<close>

text \<open>\<^verbatim>\<open>[os.path.join(img_folder, img_name) for img_name in self.images]\<close>: joining a
  cell that is not a string raises.\<close>

fun join_images :: "string \<Rightarrow> cell list \<Rightarrow> error + string list" where
  "join_images img_folder [] = Inr []"
| "join_images img_folder (Str img_name # rest) =
     (case join_images img_folder rest of
        Inl e \<Rightarrow> Inl e
      | Inr paths \<Rightarrow> Inr (os_path_join img_folder img_name # paths))"
| "join_images img_folder (NotStr v # rest) = Inl TypeError"

text \<open>\<^verbatim>\<open>CsvDataset.__init__\<close>: the image column, each name joined to the image folder, and
  then the caption column of the file.\<close>

definition CsvDataset_init ::
  "'f world \<Rightarrow> string \<Rightarrow> 'f \<Rightarrow> string \<Rightarrow> string \<Rightarrow> string \<Rightarrow> string \<Rightarrow> error + 'f dataset" where
  "CsvDataset_init w input_filename tfm img_key caption_key img_folder sep =
     (case read_csv w input_filename sep of
        Inl e \<Rightarrow> Inl e
      | Inr df \<Rightarrow>
          (case df_column df img_key of
             Inl e \<Rightarrow> Inl e
           | Inr names \<Rightarrow>
               (case join_images img_folder names of
                  Inl e \<Rightarrow> Inl e
                | Inr paths \<Rightarrow>
                    (case df_column df caption_key of
                       Inl e \<Rightarrow> Inl e
                     | Inr caps \<Rightarrow> Inr (CsvDataset paths caps tfm)))))"

text \<open>\<^verbatim>\<open>CsvDataset.__len__\<close>.\<close>

definition CsvDataset_len :: "'f dataset \<Rightarrow> nat" where
  "CsvDataset_len self = length (captions self)"

text \<open>\<^verbatim>\<open>CsvDataset.__getitem__\<close>; \<open>image_open\<close> is \<^verbatim>\<open>Image.open\<close> and \<open>tokenize\<close> the
  tokenizer, which gives a row of tokens for every text.\<close>

definition CsvDataset_getitem ::
  "(string \<Rightarrow> error + 'i) \<Rightarrow> (string list \<Rightarrow> 'k list) \<Rightarrow> ('i \<Rightarrow> 't) dataset \<Rightarrow> int \<Rightarrow> error + ('t \<times> 'k)" where
  "CsvDataset_getitem image_open tokenize self idx =
     (case py_index (images self) idx of
        Inl e \<Rightarrow> Inl e
      | Inr path \<Rightarrow>
          (case image_open path of
             Inl e \<Rightarrow> Inl e
           | Inr img \<Rightarrow>
               (case py_index (captions self) idx of
                  Inl e \<Rightarrow> Inl e
                | Inr cap \<Rightarrow>
                    (case py_index (tokenize [py_str cap]) 0 of
                       Inl e \<Rightarrow> Inl e
                     | Inr texts \<Rightarrow> Inr (transforms self img, texts)))))"

section \<open>Counting samples\<close>

text \<open>The loop of \<^verbatim>\<open>count_samples\<close> over the batches the loader yields.\<close>

fun count_loop :: "nat \<Rightarrow> nat \<Rightarrow> ('a list \<times> 'b list) list \<Rightarrow> error + (nat \<times> nat)" where
  "count_loop n_elements n_batches [] = Inr (n_elements, n_batches)"
| "count_loop n_elements n_batches ((imgs, texts) # rest) =
     (if length imgs = length texts
      then count_loop (n_elements + length imgs) (n_batches + 1) rest
      else Inl AssertionError)"

text \<open>\<^verbatim>\<open>count_samples\<close> sets \<^verbatim>\<open>WDS_EPOCH\<close> in the process environment first; the result is
  the environment afterwards and what the function returns or raises.\<close>

definition count_samples ::
  "(string \<Rightarrow> string option) \<Rightarrow> ('a list \<times> 'b list) list \<Rightarrow> (string \<Rightarrow> string option) \<times> (error + (nat \<times> nat))" where
  "count_samples environ batches = (environ(''WDS_EPOCH'' \<mapsto> ''0''), count_loop 0 0 batches)"

section \<open>Building the loaders\<close>

text \<open>The loader a successful construction gives, by its keyword arguments.\<close>

definition DataLoader_record ::
  "'f dataset \<Rightarrow> int option \<Rightarrow> bool \<Rightarrow> int \<Rightarrow> bool \<Rightarrow> 'f sampler option \<Rightarrow> bool \<Rightarrow> 'f dataloader" where
  "DataLoader_record ds bs shuffle num_workers pin_memory smp drop_last =
     \<lparr>dl_dataset = ds, dl_batch_size = bs, dl_shuffle = shuffle, dl_num_workers = num_workers,
      dl_pin_memory = pin_memory, dl_sampler = smp, dl_drop_last = drop_last,
      dl_repeat_slice = None, num_samples = None, num_batches = None\<rparr>"

text \<open>
  The constructor of \<^verbatim>\<open>DataLoader\<close> (the web loader is one too) with the checks it makes
  on its arguments: the number of workers is not negative; an iterable dataset takes
  neither a shuffle nor a sampler; a sampler excludes shuffling; without a batch size
  there is no \<^verbatim>\<open>drop_last\<close>; a batch size is positive.
\<close>

definition DataLoader ::
  "'f dataset \<Rightarrow> int option \<Rightarrow> bool \<Rightarrow> int \<Rightarrow> bool \<Rightarrow> 'f sampler option \<Rightarrow> bool \<Rightarrow> error + 'f dataloader" where
  "DataLoader ds bs shuffle num_workers pin_memory smp drop_last =
     (if num_workers < 0 then
        Inl (ValueError ''num_workers option should be non-negative'')
      else if iterable ds \<and> shuffle then
        Inl (ValueError ''DataLoader with IterableDataset: expected unspecified shuffle option'')
      else if iterable ds \<and> smp \<noteq> None then
        Inl (ValueError ''DataLoader with IterableDataset: expected unspecified sampler option'')
      else if smp \<noteq> None \<and> shuffle then
        Inl (ValueError ''sampler option is mutually exclusive with shuffle'')
      else if bs = None \<and> drop_last then
        Inl (ValueError ''batch_size=None option is mutually exclusive with drop_last'')
      else if (case bs of None \<Rightarrow> False | Some b \<Rightarrow> b \<le> 0) then
        Inl (ValueError ''batch_size should be a positive integer value'')
      else Inr (DataLoader_record ds bs shuffle num_workers pin_memory smp drop_last))"

text \<open>
  What iterating a loader yields on a node, where \<open>pass k\<close> is what the \<open>k\<close>-th pass over
  the data of the node yields: \<^verbatim>\<open>.repeat(r)\<close> makes \<open>r\<close> passes and \<^verbatim>\<open>.slice(n)\<close> stops
  after \<open>n\<close> batches (a negative \<open>n\<close> raises).
\<close>

definition loader_batches :: "'f dataloader \<Rightarrow> (nat \<Rightarrow> 'b list) \<Rightarrow> error + 'b list" where
  "loader_batches loader pass =
     (case dl_repeat_slice loader of
        None \<Rightarrow> Inr (pass 0)
      | Some (r, n) \<Rightarrow>
          if n < 0 then Inl (ValueError ''Stop argument for islice() must be None or an integer'')
          else Inr (take (nat n) (concat (map pass [0..<r]))))"

text \<open>\<^verbatim>\<open>if args.debug_run: dataset = get_data_subset(dataset)\<close>, with the shuffle of the
  \<open>k\<close>-th call.\<close>

definition debug_subset :: "'f world \<Rightarrow> args \<Rightarrow> nat \<Rightarrow> 'f dataset \<Rightarrow> error + 'f dataset" where
  "debug_subset w a k ds =
     (if debug_run a then get_data_subset_default (np_shuffle w k) ds else Inr ds)"

definition get_cellpainting_dataset :: "'f world \<Rightarrow> args \<Rightarrow> 'f \<Rightarrow> bool \<Rightarrow> error + 'f DataInfo" where
  "get_cellpainting_dataset w a preprocess_fn is_train =
     (let input_index = (if is_train then train_index a else val_index a);
          input_filename_mols = data_mols a;
          input_filename_imgs = image_path a
      in if \<not> truthy input_filename_mols then Inl AssertionError
         else if \<not> truthy input_filename_imgs then Inl AssertionError
         else
           (case new_CellPainting w input_index input_filename_imgs input_filename_mols of
              Inl e \<Rightarrow> Inl e
            | Inr n \<Rightarrow>
                (case debug_subset w a 0
                        (CellPainting input_index input_filename_imgs input_filename_mols preprocess_fn n) of
                   Inl e \<Rightarrow> Inl e
                 | Inr ds \<Rightarrow>
                     (case py_len ds of
                        Inl e \<Rightarrow> Inl e
                      | Inr len \<Rightarrow>
                          let smp = (if distributed a \<and> is_train
                                     then Some (DistributedSampler ds (seed a)) else None);
                              shuffle = (is_train \<and> smp = None);
                              bs = (if is_train then batch_size a else batch_size_eval a)
                          in (case DataLoader ds (Some bs) shuffle (workers a) True smp is_train of
                                Inl e \<Rightarrow> Inl e
                              | Inr loader0 \<Rightarrow>
                                  let loader = loader0\<lparr>num_samples := Some (int len)\<rparr>;
                                      loader = loader\<lparr>num_batches := Some (len_DataLoader w loader)\<rparr>
                                  in Inr \<lparr>dataloader = loader, sampler = smp\<rparr>)))))"

text \<open>
  \<^verbatim>\<open>math.ceil(x / y)\<close>. The quotient is a float. For \<open>0 \<le> x < 2 ^ 53\<close> and
  \<open>0 < y < 2 ^ 53\<close> the float next to the fraction lies on the same side of every whole
  number as the fraction, so the result is the ceiling of the fraction; elsewhere the
  result is what the float arithmetic gives.
\<close>

definition math_ceil_quotient :: "'f world \<Rightarrow> int \<Rightarrow> int \<Rightarrow> error + int" where
  "math_ceil_quotient w x y =
     (if y = 0 then Inl ZeroDivisionError
      else if 0 \<le> x \<and> x < 2 ^ 53 \<and> 0 < y \<and> y < 2 ^ 53 then Inr (- ((- x) div y))
      else (case float_ceil_quotient w x y of
              None \<Rightarrow> Inl OverflowError
            | Some c \<Rightarrow> Inr c))"

fun shard_sizes :: "(string \<Rightarrow> int option) \<Rightarrow> string list \<Rightarrow> error + int list" where
  "shard_sizes sizes [] = Inr []"
| "shard_sizes sizes (shard # rest) =
     (case sizes (os_path_basename shard) of
        None \<Rightarrow> Inl (KeyError (os_path_basename shard))
      | Some v \<Rightarrow>
          (case shard_sizes sizes rest of
             Inl e \<Rightarrow> Inl e
           | Inr vs \<Rightarrow> Inr (v # vs)))"

definition get_dataset_size :: "'f world \<Rightarrow> string \<Rightarrow> error + (int \<times> nat)" where
  "get_dataset_size w shards =
     (case braceexpand w shards of
        Inl e \<Rightarrow> Inl e
      | Inr shards_list \<Rightarrow>
          let dir_path = os_path_dirname shards
          in (case read_sizes w (os_path_join dir_path ''sizes.json'') of
                Inl e \<Rightarrow> Inl e
              | Inr sizes \<Rightarrow>
                  (case shard_sizes sizes shards_list of
                     Inl e \<Rightarrow> Inl e
                   | Inr vs \<Rightarrow> Inr (sum_list vs, length shards_list))))"

text \<open>The sample and batch counts of \<^verbatim>\<open>get_wds_dataset\<close>: the reported number of samples,
  the number of batches and the batch size, from the size and number of the shards.\<close>

definition wds_counts :: "'f world \<Rightarrow> args \<Rightarrow> bool \<Rightarrow> int \<Rightarrow> nat \<Rightarrow> error + (int \<times> int \<times> int)" where
  "wds_counts w a is_train total_size num_shards =
     (if is_train \<and> distributed a then
        (case math_ceil_quotient w (int num_shards) (world_size a) of
           Inl e \<Rightarrow> Inl e
         | Inr max_shards_per_node \<Rightarrow>
             if num_shards = 0 then Inl ZeroDivisionError
             else let total_size1 = world_size a * (total_size * max_shards_per_node div int num_shards)
               in if batch_size a * world_size a = 0 then Inl ZeroDivisionError
                  else let nb = total_size1 div (batch_size a * world_size a)
                    in Inr (nb * batch_size a * world_size a, nb, batch_size a))
      else if is_train \<and> \<not> distributed a then
        if batch_size a = 0 then Inl ZeroDivisionError
        else Inr (total_size, total_size div batch_size a, batch_size a)
      else
        if batch_size_eval a = 0 then Inl ZeroDivisionError
        else Inr (total_size, total_size div batch_size_eval a, batch_size_eval a))"

text \<open>
  \<^verbatim>\<open>torch.manual_seed(seed)\<close>, \<^verbatim>\<open>random.seed(seed)\<close> and \<^verbatim>\<open>np.random.seed(seed)\<close>, in this
  order: the first takes a seed from \<open>- 2 ^ 63\<close> to \<open>2 ^ 64 - 1\<close>, the second any, the
  third one from \<open>0\<close> to \<open>2 ^ 32 - 1\<close>.
\<close>

definition seed_generators :: "int \<Rightarrow> error + unit" where
  "seed_generators s =
     (if s < - (2 ^ 63) \<or> 2 ^ 64 \<le> s then Inl (RuntimeError ''Overflow when unpacking long'')
      else if s < 0 \<or> 2 ^ 32 \<le> s then Inl (ValueError ''Seed must be between 0 and 2**32 - 1'')
      else Inr ())"

text \<open>\<^verbatim>\<open>get_wds_dataset\<close>. The source seeds the random generators again before it builds the
  shard list; the shuffle of a debug subset is then the first one after the seeding.\<close>

definition get_wds_dataset :: "'f world \<Rightarrow> args \<Rightarrow> 'f \<Rightarrow> bool \<Rightarrow> error + 'f DataInfo" where
  "get_wds_dataset w a preprocess_img is_train =
     (let input_shards = (if is_train then train_data a else val_data a)
      in case input_shards of
           None \<Rightarrow> Inl AssertionError
         | Some shards \<Rightarrow>
             (case get_dataset_size w shards of
                Inl e \<Rightarrow> Inl e
              | Inr (total_size, num_shards) \<Rightarrow>
                  (case wds_counts w a is_train total_size num_shards of
                     Inl e \<Rightarrow> Inl e
                   | Inr (nsamples, nbatches, bs) \<Rightarrow>
                       (case seed_generators (seed a) of
                          Inl e \<Rightarrow> Inl e
                        | Inr _ \<Rightarrow>
                            (case debug_subset w a 0
                                    (WebDataset shards is_train is_train preprocess_img bs
                                       (\<not> is_train \<or> \<not> distributed a) (len_WebDataset w shards)) of
                               Inl e \<Rightarrow> Inl e
                             | Inr ds \<Rightarrow>
                                 (case DataLoader ds None False (workers a) False None False of
                                    Inl e \<Rightarrow> Inl e
                                  | Inr loader0 \<Rightarrow>
                                      let loader = (if is_train \<and> distributed a
                                                    then loader0\<lparr>dl_repeat_slice := Some (2, nbatches)\<rparr>
                                                    else loader0);
                                          loader = loader\<lparr>num_batches := Some nbatches\<rparr>;
                                          loader = loader\<lparr>num_samples := Some nsamples\<rparr>
                                      in Inr \<lparr>dataloader = loader, sampler = None\<rparr>))))))"

definition get_csv_dataset :: "'f world \<Rightarrow> args \<Rightarrow> 'f \<Rightarrow> bool \<Rightarrow> error + 'f DataInfo" where
  "get_csv_dataset w a preprocess_fn is_train =
     (let input_filename = (if is_train then train_data a else val_data a)
      in case input_filename of
           None \<Rightarrow> Inl AssertionError
         | Some fname \<Rightarrow>
             if fname = [] then Inl AssertionError
             else
               (case CsvDataset_init w fname preprocess_fn (csv_img_key a) (csv_caption_key a)
                       (path_data a) (csv_separator a) of
                  Inl e \<Rightarrow> Inl e
                | Inr ds0 \<Rightarrow>
                    (case debug_subset w a 0 ds0 of
                       Inl e \<Rightarrow> Inl e
                     | Inr ds \<Rightarrow>
                         (case py_len ds of
                            Inl e \<Rightarrow> Inl e
                          | Inr len \<Rightarrow>
                              let smp = (if distributed a \<and> is_train
                                         then Some (DistributedSampler ds (seed a)) else None);
                                  shuffle = (smp = None);
                                  bs = (if is_train then batch_size a else batch_size_eval a)
                              in (case DataLoader ds (Some bs) shuffle (workers a) True smp is_train of
                                    Inl e \<Rightarrow> Inl e
                                  | Inr loader0 \<Rightarrow>
                                      let loader = loader0\<lparr>num_samples := Some (int len)\<rparr>;
                                          loader = loader\<lparr>num_batches := Some (len_DataLoader w loader)\<rparr>
                                      in Inr \<lparr>dataloader = loader, sampler = smp\<rparr>)))))"

section \<open>The ImageNet loaders\<close>

text \<open>\<^verbatim>\<open>arr[:k] = v\<close>, \<^verbatim>\<open>idxs[m]\<close>, \<^verbatim>\<open>idxs[m] = arr\<close> and \<^verbatim>\<open>np.where(idxs)[0]\<close> on
  one-dimensional arrays; the arrays of the source hold 0 and 1 only. The source assigns
  through a mask exactly as many values as the mask selects (a shuffle keeps the length);
  with fewer values \<open>np_mask_assign\<close> leaves the remaining entries as they are.\<close>

definition np_set_prefix :: "nat \<Rightarrow> nat \<Rightarrow> nat list \<Rightarrow> nat list" where
  "np_set_prefix k v arr = replicate (min k (length arr)) v @ drop k arr"

fun np_mask_select :: "nat list \<Rightarrow> bool list \<Rightarrow> nat list" where
  "np_mask_select (x # xs) (b # m) = (if b then x # np_mask_select xs m else np_mask_select xs m)"
| "np_mask_select _ _ = []"

fun np_mask_assign :: "nat list \<Rightarrow> bool list \<Rightarrow> nat list \<Rightarrow> nat list" where
  "np_mask_assign (x # xs) (b # m) arr =
     (if b then (case arr of [] \<Rightarrow> x # np_mask_assign xs m [] | v # vs \<Rightarrow> v # np_mask_assign xs m vs)
      else x # np_mask_assign xs m arr)"
| "np_mask_assign xs _ arr = xs"

definition np_where :: "nat list \<Rightarrow> nat list" where
  "np_where xs = filter (\<lambda>i. xs ! i \<noteq> 0) [0..<length xs]"

text \<open>The body of the loop over the classes: class \<open>c\<close> uses the \<open>(k0 + c)\<close>-th shuffle.\<close>

definition imagenet_class_step ::
  "(nat \<Rightarrow> nat list \<Rightarrow> nat list) \<Rightarrow> nat \<Rightarrow> int list \<Rightarrow> nat \<Rightarrow> nat list \<Rightarrow> nat list" where
  "imagenet_class_step shuffle k0 target_array c idxs =
     (let m = map (\<lambda>t. t = int c) target_array;
          n = length (np_mask_select idxs m);
          arr = replicate n 0;
          arr = np_set_prefix 50 1 arr;
          arr = shuffle (k0 + c) arr
      in np_mask_assign idxs m arr)"

definition imagenet_train_indices ::
  "(nat \<Rightarrow> nat list \<Rightarrow> nat list) \<Rightarrow> nat \<Rightarrow> int list \<Rightarrow> nat list" where
  "imagenet_train_indices shuffle k0 targets =
     np_where (fold (imagenet_class_step shuffle k0 targets) [0..<1000] (replicate (length targets) 0))"

text \<open>\<^verbatim>\<open>get_imagenet\<close> up to the construction of the loader: the dataset and the sampler
  it has built when it calls \<^verbatim>\<open>DataLoader\<close>.\<close>

definition get_imagenet_sampler ::
  "'f world \<Rightarrow> args \<Rightarrow> 'f \<times> 'f \<Rightarrow> string \<Rightarrow> error + ('f dataset \<times> 'f sampler option)" where
  "get_imagenet_sampler w a preprocess_fns split =
     (if split \<notin> set [''train'', ''val'', ''v2''] then Inl AssertionError
      else
        let is_train = (split = ''train'');
            preprocess_train = fst preprocess_fns;
            preprocess_val = snd preprocess_fns
        in case (if split = ''v2'' then
                   (case new_ImageNetV2Dataset w (imagenet_v2 a) of
                      Inl e \<Rightarrow> Inl e
                    | Inr n \<Rightarrow> Inr (ImageNetV2Dataset (imagenet_v2 a) preprocess_val n))
                 else
                   (let data_path = (if is_train then imagenet_train a else imagenet_val a);
                        preprocess_fn = (if is_train then preprocess_train else preprocess_val)
                    in case data_path of
                         None \<Rightarrow> Inl AssertionError
                       | Some path \<Rightarrow>
                           if path = [] then Inl AssertionError
                           else (case new_ImageFolder w path of
                                   Inl e \<Rightarrow> Inl e
                                 | Inr targets \<Rightarrow> Inr (ImageFolder path preprocess_fn targets)))) of
             Inl e \<Rightarrow> Inl e
           | Inr ds0 \<Rightarrow>
               (case debug_subset w a 0 ds0 of
                  Inl e \<Rightarrow> Inl e
                | Inr ds \<Rightarrow>
                    (if is_train then
                       (case py_targets ds of
                          Inl e \<Rightarrow> Inl e
                        | Inr targets \<Rightarrow>
                            Inr (ds, Some (SubsetRandomSampler
                              (imagenet_train_indices (np_shuffle w)
                                 (if debug_run a then 1 else 0) targets))))
                     else Inr (ds, None))))"

text \<open>\<^verbatim>\<open>get_imagenet\<close>: the loader is built with \<^verbatim>\<open>shuffle=True\<close> and the sampler.\<close>

definition get_imagenet :: "'f world \<Rightarrow> args \<Rightarrow> 'f \<times> 'f \<Rightarrow> string \<Rightarrow> error + 'f DataInfo" where
  "get_imagenet w a preprocess_fns split =
     (case get_imagenet_sampler w a preprocess_fns split of
        Inl e \<Rightarrow> Inl e
      | Inr (ds, smp) \<Rightarrow>
          (case DataLoader ds (Some (batch_size_eval a)) True (workers a) False smp False of
             Inl e \<Rightarrow> Inl e
           | Inr loader \<Rightarrow> Inr \<lparr>dataloader = loader, sampler = smp\<rparr>))"

section \<open>The top level\<close>

text \<open>\<^verbatim>\<open>get_data\<close> fills a dictionary; the first constructor that raises ends the call. A
  debug subset uses one shuffle, so a later constructor sees the world one shuffle on.\<close>

definition get_data :: "'f world \<Rightarrow> args \<Rightarrow> 'f \<times> 'f \<Rightarrow> error + (string \<Rightarrow> 'f DataInfo option)" where
  "get_data w a preprocess_fns =
     (let preprocess_train = fst preprocess_fns;
          preprocess_val = snd preprocess_fns;
          used = (if debug_run a then 1 else 0);
          w1 = (if truthy (train_index a) then rng_skip used w else w);
          w2 = (if truthy (val_index a) then rng_skip used w1 else w1);
          w3 = (if imagenet_val a \<noteq> None then rng_skip used w2 else w2)
      in case (if truthy (train_index a)
               then (case get_cellpainting_dataset w a preprocess_train True of
                       Inl e \<Rightarrow> Inl e
                     | Inr info \<Rightarrow> Inr (Map.empty(''train'' \<mapsto> info)))
               else Inr Map.empty) of
           Inl e \<Rightarrow> Inl e
         | Inr data1 \<Rightarrow>
             (case (if truthy (val_index a)
                    then (case get_cellpainting_dataset w1 a preprocess_val False of
                            Inl e \<Rightarrow> Inl e
                          | Inr info \<Rightarrow> Inr (data1(''val'' \<mapsto> info)))
                    else Inr data1) of
                Inl e \<Rightarrow> Inl e
              | Inr data2 \<Rightarrow>
                  (case (if imagenet_val a \<noteq> None
                         then (case get_imagenet w2 a preprocess_fns ''val'' of
                                 Inl e \<Rightarrow> Inl e
                               | Inr info \<Rightarrow> Inr (data2(''imagenet-val'' \<mapsto> info)))
                         else Inr data2) of
                     Inl e \<Rightarrow> Inl e
                   | Inr data3 \<Rightarrow>
                       (if imagenet_v2 a \<noteq> None
                        then (case get_imagenet w3 a preprocess_fns ''v2'' of
                                Inl e \<Rightarrow> Inl e
                              | Inr info \<Rightarrow> Inr (data3(''imagenet-v2'' \<mapsto> info)))
                        else Inr data3))))"

section \<open>Assertions\<close>

text \<open>No library call and no file read raises an AssertionError of its own.\<close>

definition externals_assert_free :: "'f world \<Rightarrow> bool" where
  "externals_assert_free w =
     ((\<forall>f s. read_csv w f s \<noteq> Inl AssertionError) \<and>
      (\<forall>i g m. new_CellPainting w i g m \<noteq> Inl AssertionError) \<and>
      (\<forall>p. braceexpand w p \<noteq> Inl AssertionError) \<and>
      (\<forall>p. read_sizes w p \<noteq> Inl AssertionError))"

section \<open>A small world and command line, for examples\<close>

definition demo_args :: args where
  "demo_args =
     \<lparr>train_index = Some ''index/train.csv'', val_index = None,
      data_mols = Some ''mols/fingerprints.hdf'', image_path = Some ''cellpainting/images'',
      train_data = Some ''shards/{0..1}.tar'', val_data = Some ''pairs/val.tsv'',
      imagenet_train = Some ''imagenet/train'', imagenet_val = Some ''imagenet/val'',
      imagenet_v2 = None,
      csv_img_key = ''filepath'', csv_caption_key = ''title'', csv_separator = ''|'',
      path_data = ''imgs'', debug_run = False, distributed = True, seed = 7,
      batch_size = 2, batch_size_eval = 4, workers = 1, world_size = 2\<rparr>"

definition demo_frame :: dataframe where
  "demo_frame =
     \<lparr>df_columns = [''filepath'', ''title''],
      df_rows = [[Str ''a.png'', Str ''x''], [Str ''b.png'', Str ''y''], [Str ''c.png'', Str ''z'']]\<rparr>"

definition demo_sizes :: "string \<Rightarrow> int option" where
  "demo_sizes = [''0.tar'' \<mapsto> 10, ''1.tar'' \<mapsto> 11]"

definition demo_world :: "unit world" where
  "demo_world =
     \<lparr>read_csv = (\<lambda>f sep. Inr demo_frame),
      new_CellPainting = (\<lambda>index imgs mols. Inr 5),
      new_ImageFolder = (\<lambda>path. Inr [0, 1, 0, 2]),
      new_ImageNetV2Dataset = (\<lambda>location. Inr 7),
      braceexpand = (\<lambda>pattern. Inr [''shards/0.tar'', ''shards/1.tar'']),
      read_sizes = (\<lambda>path. if path = ''shards/sizes.json'' then Inr demo_sizes else Inl (OSError path)),
      len_WebDataset = (\<lambda>shards. None),
      np_shuffle = (\<lambda>k. rev),
      len_DataLoader = (\<lambda>loader. 1),
      float_ceil_quotient = (\<lambda>x y. None)\<rparr>"


text \<open>Two shards of very different sizes, 100 samples and one sample, one for each of two
  nodes. With batches of two, a pass over the large shard yields 50 batches and a pass
  over the small one none, the loader keeping full batches only.\<close>

definition lopsided_sizes :: "string \<Rightarrow> int option" where
  "lopsided_sizes = [''0.tar'' \<mapsto> 100, ''1.tar'' \<mapsto> 1]"

definition lopsided_world :: "unit world" where
  "lopsided_world =
     demo_world\<lparr>read_sizes :=
       (\<lambda>path. if path = ''shards/sizes.json'' then Inr lopsided_sizes else Inl (OSError path))\<rparr>"

definition large_shard_pass :: "nat \<Rightarrow> nat list" where
  "large_shard_pass k = replicate 50 0"

definition small_shard_pass :: "nat \<Rightarrow> nat list" where
  "small_shard_pass k = []"

section \<open>Properties of the dispatch\<close>

lemma split_from_nonempty: "split_from sep cur s \<noteq> []"
  by (induction s arbitrary: cur) auto

lemma last_split_from:
  "last (split_from sep cur s) =
     (if sep \<in> set s then rev (takeWhile (\<lambda>c. c \<noteq> sep) (rev s))
      else cur @ s)"
proof (induction s arbitrary: cur)
  case Nil
  then show ?case by simp
next
  case (Cons c cs)
  show ?case
  proof (cases "c = sep")
    case True
    then show ?thesis
      using Cons.IH [of "[]"] split_from_nonempty [of sep "[]" cs]
      by (auto simp: takeWhile_append)
  next
    case False
    then show ?thesis
      using Cons.IH [of "cur @ [c]"]
      by (auto simp: takeWhile_append)
  qed
qed

lemma final_component_no_dot:
  "CHR ''.'' \<notin> set p \<Longrightarrow> final_component p = p"
proof -
  assume "CHR ''.'' \<notin> set p"
  then have "takeWhile (\<lambda>c. c \<noteq> CHR ''.'') (rev p) = rev p"
    by (auto simp: takeWhile_eq_all_conv)
  then show ?thesis by (simp only: final_component_def rev_rev_ident)
qed

lemma py_index_last: "xs \<noteq> [] \<Longrightarrow> py_index xs (- 1) = Inr (last xs)"
  by (cases xs rule: rev_cases) (auto simp: py_index_def Let_def nth_append)

lemma extension_is_final_component:
  "py_index (py_split p CHR ''.'') (- 1) = Inr (final_component p)"
proof -
  have "py_index (py_split p CHR ''.'') (- 1) = Inr (last (split_from CHR ''.'' [] p))"
    unfolding py_split_def by (rule py_index_last) (rule split_from_nonempty)
  also have "last (split_from CHR ''.'' [] p) = final_component p"
    by (simp only: last_split_from) (auto simp: final_component_def final_component_no_dot [unfolded final_component_def])
  finally show ?thesis .
qed

text \<open>
  C1. For every path and dataset type: "webdataset" gives \<^verbatim>\<open>get_wds_dataset\<close>, "csv" gives
  \<^verbatim>\<open>get_csv_dataset\<close>; "auto" looks at the final dot-separated component of the path and
  gives \<^verbatim>\<open>get_csv_dataset\<close> for csv and tsv, \<^verbatim>\<open>get_wds_dataset\<close> for tar and a
  ValueError for anything else; every other dataset type is a ValueError.
\<close>

theorem get_dataset_fn_dispatch:
  "(dataset_type = ''webdataset'' \<longrightarrow> get_dataset_fn data_path dataset_type = Inr Get_wds_dataset) \<and>
   (dataset_type = ''csv'' \<longrightarrow> get_dataset_fn data_path dataset_type = Inr Get_csv_dataset) \<and>
   (dataset_type = ''auto'' \<longrightarrow>
      (final_component data_path \<in> {''csv'', ''tsv''} \<longrightarrow>
         get_dataset_fn data_path dataset_type = Inr Get_csv_dataset) \<and>
      (final_component data_path = ''tar'' \<longrightarrow>
         get_dataset_fn data_path dataset_type = Inr Get_wds_dataset) \<and>
      (final_component data_path \<notin> {''csv'', ''tsv'', ''tar''} \<longrightarrow>
         (\<exists>msg. get_dataset_fn data_path dataset_type = Inl (ValueError msg)))) \<and>
   (dataset_type \<notin> {''webdataset'', ''csv'', ''auto''} \<longrightarrow>
      (\<exists>msg. get_dataset_fn data_path dataset_type = Inl (ValueError msg)))"
  by (simp add: get_dataset_fn_def extension_is_final_component)

theorem get_dataset_fn_dispatch_witness:
  "get_dataset_fn ''shards/train-{000..009}.tar'' ''auto'' = Inr Get_wds_dataset \<and>
   get_dataset_fn ''data/pairs.v2.tsv'' ''auto'' = Inr Get_csv_dataset \<and>
   get_dataset_fn ''anything'' ''webdataset'' = Inr Get_wds_dataset \<and>
   get_dataset_fn ''anything'' ''csv'' = Inr Get_csv_dataset \<and>
   (\<exists>msg. get_dataset_fn ''notes.txt'' ''auto'' = Inl (ValueError msg)) \<and>
   (\<exists>msg. get_dataset_fn ''pairs.csv'' ''parquet'' = Inl (ValueError msg))"
  using get_dataset_fn_dispatch [of "''auto''" "''shards/train-{000..009}.tar''"]
    get_dataset_fn_dispatch [of "''auto''" "''data/pairs.v2.tsv''"]
    get_dataset_fn_dispatch [of "''webdataset''" "''anything''"]
    get_dataset_fn_dispatch [of "''csv''" "''anything''"]
    get_dataset_fn_dispatch [of "''auto''" "''notes.txt''"]
    get_dataset_fn_dispatch [of "''parquet''" "''pairs.csv''"]
  by (simp add: final_component_def)

section \<open>Properties of the debug subset\<close>

lemma shuffle_permutes_rev: "shuffle_permutes rev"
  by (simp add: shuffle_permutes_def)

lemma shuffled_range:
  assumes "shuffle_permutes f"
  shows "length (f [0..<n]) = n" and "distinct (f [0..<n])" and "set (f [0..<n]) = {0..<n}"
proof -
  have m: "mset (f [0..<n]) = mset [0..<n]"
    using assms by (simp add: shuffle_permutes_def)
  show "length (f [0..<n]) = n"
    using mset_eq_length [OF m] by simp
  show "distinct (f [0..<n])"
    using mset_eq_imp_distinct_iff [OF m] by simp
  show "set (f [0..<n]) = {0..<n}"
    using mset_eq_setD [OF m] by simp
qed

text \<open>
  C5. For a dataset of length \<open>n\<close>, the debug subset taken with the default argument has
  exactly \<open>min 1000 n\<close> indices, pairwise distinct and all below \<open>n\<close>; so never more
  than 1000.
\<close>

theorem get_data_subset_bounds:
  assumes "shuffle_permutes shuffle" and "py_len dataset = Inr n"
  shows "\<exists>idcs. get_data_subset_default shuffle dataset = Inr (Subset dataset idcs) \<and>
           py_len (Subset dataset idcs) = Inr (min 1000 n) \<and>
           distinct idcs \<and> (\<forall>i \<in> set idcs. i < n) \<and> length idcs \<le> 1000"
proof -
  define k :: nat where "k = min 1000 n"
  define idcs where "idcs = take k (shuffle [0..<n])"
  have kn: "nat (min (1000::int) (int n)) = k"
    by (simp add: min_def k_def)
  have "py_slice_to (shuffle [0..<n]) (min 1000 (int n)) = idcs"
    unfolding py_slice_to_def idcs_def by (simp only: kn) simp
  then have eq: "get_data_subset_default shuffle dataset = Inr (Subset dataset idcs)"
    using assms(2) unfolding get_data_subset_default_def get_data_subset_def
    by (simp add: Let_def)
  have "k \<le> n" and k1000: "k \<le> 1000"
    by (simp_all add: k_def)
  then have len: "length idcs = k"
    using shuffled_range(1) [OF assms(1), of n] by (simp add: idcs_def)
  have dist: "distinct idcs"
    unfolding idcs_def by (rule distinct_take) (rule shuffled_range(2) [OF assms(1)])
  have bound: "\<forall>i \<in> set idcs. i < n"
  proof
    fix i assume "i \<in> set idcs"
    then have "i \<in> set (shuffle [0..<n])"
      unfolding idcs_def by (rule in_set_takeD)
    then show "i < n"
      by (simp add: shuffled_range(3) [OF assms(1)])
  qed
  have "py_len (Subset dataset idcs) = Inr (min 1000 n)"
    using len by (simp add: k_def)
  with eq len dist bound k1000 show ?thesis
    by blast
qed

theorem get_data_subset_bounds_witness:
  "shuffle_permutes rev \<and>
   py_len (CsvDataset [''a.png'', ''b.png'', ''c.png''] [Str ''x'', Str ''y'', Str ''z''] ()) = Inr 3 \<and>
   (\<exists>idcs. get_data_subset_default rev (CsvDataset [''a.png'', ''b.png'', ''c.png''] [Str ''x'', Str ''y'', Str ''z''] ())
        = Inr (Subset (CsvDataset [''a.png'', ''b.png'', ''c.png''] [Str ''x'', Str ''y'', Str ''z''] ()) idcs) \<and>
      py_len (Subset (CsvDataset [''a.png'', ''b.png'', ''c.png''] [Str ''x'', Str ''y'', Str ''z''] ()) idcs) = Inr 3 \<and>
      distinct idcs \<and> length idcs \<le> 1000)"
  using get_data_subset_bounds [OF shuffle_permutes_rev,
      of "CsvDataset [''a.png'', ''b.png'', ''c.png''] [Str ''x'', Str ''y'', Str ''z''] ()" 3]
  by (simp add: shuffle_permutes_rev) blast

section \<open>Which errors can arise\<close>

lemma py_len_Inl: "py_len ds = Inl e \<Longrightarrow> e = TypeError"
  by (cases ds) (auto split: option.splits)

lemma get_data_subset_Inl: "get_data_subset f ds k = Inl e \<Longrightarrow> e = TypeError"
  by (auto simp: get_data_subset_def Let_def split: sum.splits dest: py_len_Inl)

lemma debug_subset_Inl: "debug_subset w a k ds = Inl e \<Longrightarrow> e = TypeError"
  by (auto simp: debug_subset_def get_data_subset_default_def split: if_splits dest: get_data_subset_Inl)

lemma df_column_Inl: "df_column df key = Inl e \<Longrightarrow> e = KeyError key"
  by (auto simp: df_column_def split: option.splits)

lemma join_images_Inl: "join_images folder cells = Inl e \<Longrightarrow> e = TypeError"
  by (induction folder cells rule: join_images.induct) (auto split: sum.splits)

lemma CsvDataset_init_Inl:
  "CsvDataset_init w f t ik ck folder sep = Inl e \<Longrightarrow>
     read_csv w f sep = Inl e \<or> e = KeyError ik \<or> e = KeyError ck \<or> e = TypeError"
  by (auto simp: CsvDataset_init_def split: sum.splits dest: df_column_Inl join_images_Inl)

lemma DataLoader_Inl:
  "DataLoader ds bs shuffle nw pm smp dl = Inl e \<Longrightarrow> \<exists>msg. e = ValueError msg"
  by (auto simp: DataLoader_def split: if_splits)

lemma seed_generators_Inl:
  "seed_generators s = Inl e \<Longrightarrow> \<exists>msg. e = ValueError msg \<or> e = RuntimeError msg"
  by (auto simp: seed_generators_def split: if_splits)

lemma shard_sizes_Inl: "shard_sizes sizes xs = Inl e \<Longrightarrow> \<exists>k. e = KeyError k"
  by (induction xs) (auto split: option.splits sum.splits)

lemma get_dataset_size_Inl:
  "get_dataset_size w shards = Inl e \<Longrightarrow>
     braceexpand w shards = Inl e \<or>
     read_sizes w (os_path_join (os_path_dirname shards) ''sizes.json'') = Inl e \<or>
     (\<exists>k. e = KeyError k)"
  by (auto simp: get_dataset_size_def Let_def split: sum.splits dest: shard_sizes_Inl)

lemma math_ceil_quotient_Inl:
  "math_ceil_quotient w x y = Inl e \<Longrightarrow> e = ZeroDivisionError \<or> e = OverflowError"
  by (auto simp: math_ceil_quotient_def split: if_splits option.splits)

lemma wds_counts_Inl:
  "wds_counts w a t n k = Inl e \<Longrightarrow> e = ZeroDivisionError \<or> e = OverflowError"
  by (auto simp: wds_counts_def Let_def split: if_splits sum.splits dest: math_ceil_quotient_Inl)

lemma csv_no_assert:
  assumes "externals_assert_free w" and "truthy (if is_train then train_data a else val_data a)"
  shows "get_csv_dataset w a f is_train \<noteq> Inl AssertionError"
proof
  assume h: "get_csv_dataset w a f is_train = Inl AssertionError"
  from assms(2) obtain fname where s: "(if is_train then train_data a else val_data a) = Some fname" and ne: "fname \<noteq> []"
    by (auto simp: truthy_def split: option.splits)
  from h s ne show False
    using assms(1)
    by (auto simp: get_csv_dataset_def Let_def externals_assert_free_def
        split: sum.splits dest!: CsvDataset_init_Inl debug_subset_Inl py_len_Inl DataLoader_Inl)
qed

lemma wds_no_assert:
  assumes "externals_assert_free w" and "(if is_train then train_data a else val_data a) \<noteq> None"
  shows "get_wds_dataset w a f is_train \<noteq> Inl AssertionError"
proof
  assume h: "get_wds_dataset w a f is_train = Inl AssertionError"
  from assms(2) obtain shards where s: "(if is_train then train_data a else val_data a) = Some shards"
    by auto
  from h s show False
    using assms(1)
    by (auto simp: get_wds_dataset_def Let_def externals_assert_free_def
        split: sum.splits prod.splits
        dest!: get_dataset_size_Inl debug_subset_Inl wds_counts_Inl DataLoader_Inl seed_generators_Inl)
qed

lemma cellpainting_no_assert:
  assumes "externals_assert_free w" and "truthy (data_mols a)" and "truthy (image_path a)"
  shows "get_cellpainting_dataset w a f is_train \<noteq> Inl AssertionError"
proof
  assume h: "get_cellpainting_dataset w a f is_train = Inl AssertionError"
  from h assms(2,3) show False
    using assms(1)
    by (auto simp: get_cellpainting_dataset_def Let_def externals_assert_free_def
        split: sum.splits dest!: debug_subset_Inl py_len_Inl DataLoader_Inl)
qed

lemma csv_assert:
  "\<not> truthy (if is_train then train_data a else val_data a) \<Longrightarrow>
     get_csv_dataset w a f is_train = Inl AssertionError"
  by (auto simp: get_csv_dataset_def truthy_def Let_def split: option.splits)

lemma wds_assert:
  "(if is_train then train_data a else val_data a) = None \<Longrightarrow>
     get_wds_dataset w a f is_train = Inl AssertionError"
  by (auto simp: get_wds_dataset_def Let_def split: option.splits)

lemma cellpainting_assert:
  "\<not> truthy (data_mols a) \<or> \<not> truthy (image_path a) \<Longrightarrow>
     get_cellpainting_dataset w a f is_train = Inl AssertionError"
  by (auto simp: get_cellpainting_dataset_def Let_def)

section \<open>Assertion preconditions\<close>

text \<open>
  C2. Each constructor checks its required paths first, whatever the world: \<^verbatim>\<open>get_csv_dataset\<close>
  raises AssertionError when the selected file name is empty or None, \<^verbatim>\<open>get_wds_dataset\<close>
  when the selected shard pattern is None, \<^verbatim>\<open>get_cellpainting_dataset\<close> when
  \<^verbatim>\<open>data_mols\<close> or \<^verbatim>\<open>image_path\<close> is empty or None. When the paths are non-empty, none of
  the three raises an AssertionError (the libraries raising none of their own).
\<close>

theorem assertion_preconditions:
  "(\<not> truthy (if is_train then train_data a else val_data a) \<longrightarrow>
      get_csv_dataset w a f is_train = Inl AssertionError) \<and>
   ((if is_train then train_data a else val_data a) = None \<longrightarrow>
      get_wds_dataset w a f is_train = Inl AssertionError) \<and>
   (\<not> truthy (data_mols a) \<or> \<not> truthy (image_path a) \<longrightarrow>
      get_cellpainting_dataset w a f is_train = Inl AssertionError) \<and>
   (externals_assert_free w \<longrightarrow>
      (truthy (if is_train then train_data a else val_data a) \<longrightarrow>
         get_csv_dataset w a f is_train \<noteq> Inl AssertionError \<and>
         get_wds_dataset w a f is_train \<noteq> Inl AssertionError) \<and>
      (truthy (data_mols a) \<and> truthy (image_path a) \<longrightarrow>
         get_cellpainting_dataset w a f is_train \<noteq> Inl AssertionError))"
proof (intro conjI impI)
  assume "\<not> truthy (if is_train then train_data a else val_data a)"
  then show "get_csv_dataset w a f is_train = Inl AssertionError" by (rule csv_assert)
next
  assume "(if is_train then train_data a else val_data a) = None"
  then show "get_wds_dataset w a f is_train = Inl AssertionError" by (rule wds_assert)
next
  assume "\<not> truthy (data_mols a) \<or> \<not> truthy (image_path a)"
  then show "get_cellpainting_dataset w a f is_train = Inl AssertionError"
    by (rule cellpainting_assert)
next
  assume "externals_assert_free w" and "truthy (if is_train then train_data a else val_data a)"
  then show "get_csv_dataset w a f is_train \<noteq> Inl AssertionError" by (rule csv_no_assert)
next
  assume w: "externals_assert_free w" and t: "truthy (if is_train then train_data a else val_data a)"
  from t have "(if is_train then train_data a else val_data a) \<noteq> None"
    by (auto simp: truthy_def split: option.splits if_splits)
  with w show "get_wds_dataset w a f is_train \<noteq> Inl AssertionError" by (rule wds_no_assert)
next
  assume "externals_assert_free w" and "truthy (data_mols a) \<and> truthy (image_path a)"
  then show "get_cellpainting_dataset w a f is_train \<noteq> Inl AssertionError"
    using cellpainting_no_assert [of w a f is_train] by blast
qed

theorem assertion_preconditions_witness:
  "get_csv_dataset demo_world (demo_args\<lparr>train_data := Some []\<rparr>) () True = Inl AssertionError \<and>
   get_wds_dataset demo_world (demo_args\<lparr>val_data := None\<rparr>) () False = Inl AssertionError \<and>
   get_cellpainting_dataset demo_world (demo_args\<lparr>image_path := None\<rparr>) () True = Inl AssertionError \<and>
   externals_assert_free demo_world \<and>
   truthy (train_data demo_args) \<and> truthy (data_mols demo_args) \<and> truthy (image_path demo_args) \<and>
   get_csv_dataset demo_world demo_args () True \<noteq> Inl AssertionError \<and>
   get_wds_dataset demo_world demo_args () True \<noteq> Inl AssertionError \<and>
   get_cellpainting_dataset demo_world demo_args () True \<noteq> Inl AssertionError"
  using assertion_preconditions [where w = demo_world and a = "demo_args\<lparr>train_data := Some []\<rparr>"
      and f = "()" and is_train = True]
    assertion_preconditions [where w = demo_world and a = "demo_args\<lparr>val_data := None\<rparr>"
      and f = "()" and is_train = False]
    assertion_preconditions [where w = demo_world and a = "demo_args\<lparr>image_path := None\<rparr>"
      and f = "()" and is_train = True]
    assertion_preconditions [where w = demo_world and a = demo_args and f = "()" and is_train = True]
  by (simp add: demo_args_def demo_world_def truthy_def externals_assert_free_def)

section \<open>What the constructors put into the loader\<close>

lemma debug_subset_Inr:
  "debug_subset w a k ds = Inr ds' \<Longrightarrow>
     (if debug_run a then \<exists>idcs. ds' = Subset ds idcs else ds' = ds)"
  by (auto simp: debug_subset_def get_data_subset_default_def get_data_subset_def Let_def
      split: if_splits sum.splits)

lemma DataLoader_Inr:
  "DataLoader ds bs shuffle nw pm smp dl = Inr loader \<Longrightarrow>
     loader = DataLoader_record ds bs shuffle nw pm smp dl"
  by (auto simp: DataLoader_def split: if_splits)

lemma get_cellpainting_dataset_Inr:
  assumes "get_cellpainting_dataset w a f is_train = Inr info"
  shows "\<exists>n ds len smp loader.
           debug_subset w a 0 (CellPainting (if is_train then train_index a else val_index a)
             (image_path a) (data_mols a) f n) = Inr ds \<and>
           py_len ds = Inr len \<and>
           smp = (if distributed a \<and> is_train then Some (DistributedSampler ds (seed a)) else None) \<and>
           loader = (DataLoader_record ds (Some (if is_train then batch_size a else batch_size_eval a))
                       (is_train \<and> smp = None) (workers a) True smp is_train)
                    \<lparr>num_samples := Some (int len)\<rparr> \<and>
           info = \<lparr>dataloader = loader\<lparr>num_batches := Some (len_DataLoader w loader)\<rparr>,
                   sampler = smp\<rparr>"
  using assms
  by (auto simp: get_cellpainting_dataset_def Let_def split: if_splits sum.splits
      dest!: DataLoader_Inr)

lemma get_csv_dataset_Inr:
  assumes "get_csv_dataset w a f is_train = Inr info"
  shows "\<exists>fname ds0 ds len smp loader.
           (if is_train then train_data a else val_data a) = Some fname \<and>
           CsvDataset_init w fname f (csv_img_key a) (csv_caption_key a) (path_data a)
             (csv_separator a) = Inr ds0 \<and>
           debug_subset w a 0 ds0 = Inr ds \<and>
           py_len ds = Inr len \<and>
           smp = (if distributed a \<and> is_train then Some (DistributedSampler ds (seed a)) else None) \<and>
           loader = (DataLoader_record ds (Some (if is_train then batch_size a else batch_size_eval a))
                       (smp = None) (workers a) True smp is_train)
                    \<lparr>num_samples := Some (int len)\<rparr> \<and>
           info = \<lparr>dataloader = loader\<lparr>num_batches := Some (len_DataLoader w loader)\<rparr>,
                   sampler = smp\<rparr>"
  using assms
  by (auto simp: get_csv_dataset_def Let_def split: if_splits sum.splits option.splits
      dest!: DataLoader_Inr)

lemma get_wds_dataset_Inr:
  assumes "get_wds_dataset w a f is_train = Inr info"
  shows "\<exists>shards total_size num_shards nsamples nbatches bs ds.
           (if is_train then train_data a else val_data a) = Some shards \<and>
           get_dataset_size w shards = Inr (total_size, num_shards) \<and>
           wds_counts w a is_train total_size num_shards = Inr (nsamples, nbatches, bs) \<and>
           debug_subset w a 0 (WebDataset shards is_train is_train f bs
             (\<not> is_train \<or> \<not> distributed a) (len_WebDataset w shards)) = Inr ds \<and>
           info = \<lparr>dataloader =
                     (DataLoader_record ds None False (workers a) False None False)
                     \<lparr>dl_repeat_slice := (if is_train \<and> distributed a then Some (2, nbatches) else None),
                      num_samples := Some nsamples, num_batches := Some nbatches\<rparr>,
                   sampler = None\<rparr>"
  using assms
  by (auto simp: get_wds_dataset_def Let_def DataLoader_record_def
      split: if_splits sum.splits option.splits prod.splits dest!: DataLoader_Inr)

lemma get_imagenet_Inr:
  assumes "get_imagenet w a fns split = Inr info"
  shows "\<exists>ds smp. info = \<lparr>dataloader =
              DataLoader_record ds (Some (batch_size_eval a)) True (workers a) False smp False,
            sampler = smp\<rparr>"
  using assms
  by (auto simp: get_imagenet_def split: sum.splits prod.splits dest!: DataLoader_Inr)

text \<open>
  C3, as the code has it. \<^verbatim>\<open>get_cellpainting_dataset\<close> and \<^verbatim>\<open>get_csv_dataset\<close> return a loader
  whose \<^verbatim>\<open>num_samples\<close> is the length of its dataset (the debug subset when
  \<^verbatim>\<open>debug_run\<close> is set) and whose \<^verbatim>\<open>num_batches\<close> is the length of the loader;
  \<^verbatim>\<open>get_wds_dataset\<close> sets both attributes from the counts it computes out of the size
  manifest; \<^verbatim>\<open>get_imagenet\<close> sets neither attribute.
\<close>

theorem loader_count_attributes:
  "(get_cellpainting_dataset w a f is_train = Inr info \<longrightarrow>
      (\<exists>len. py_len (dl_dataset (dataloader info)) = Inr len \<and>
             num_samples (dataloader info) = Some (int len)) \<and>
      num_batches (dataloader info) =
        Some (len_DataLoader w ((dataloader info)\<lparr>num_batches := None\<rparr>)) \<and>
      (debug_run a \<longrightarrow> (\<exists>ds idcs. dl_dataset (dataloader info) = Subset ds idcs))) \<and>
   (get_csv_dataset w a f is_train = Inr info \<longrightarrow>
      (\<exists>len. py_len (dl_dataset (dataloader info)) = Inr len \<and>
             num_samples (dataloader info) = Some (int len)) \<and>
      num_batches (dataloader info) =
        Some (len_DataLoader w ((dataloader info)\<lparr>num_batches := None\<rparr>)) \<and>
      (debug_run a \<longrightarrow> (\<exists>ds idcs. dl_dataset (dataloader info) = Subset ds idcs))) \<and>
   (get_wds_dataset w a f is_train = Inr info \<longrightarrow>
      (\<exists>shards total_size num_shards nsamples nbatches bs.
          (if is_train then train_data a else val_data a) = Some shards \<and>
          get_dataset_size w shards = Inr (total_size, num_shards) \<and>
          wds_counts w a is_train total_size num_shards = Inr (nsamples, nbatches, bs) \<and>
          num_samples (dataloader info) = Some nsamples \<and>
          num_batches (dataloader info) = Some nbatches)) \<and>
   (get_imagenet w a fns split = Inr info \<longrightarrow>
      num_samples (dataloader info) = None \<and> num_batches (dataloader info) = None)"
proof (intro conjI impI)
  assume h: "get_cellpainting_dataset w a f is_train = Inr info"
  from get_cellpainting_dataset_Inr [OF h] obtain n ds len smp loader where
    d: "debug_subset w a 0 (CellPainting (if is_train then train_index a else val_index a)
          (image_path a) (data_mols a) f n) = Inr ds"
    and l: "py_len ds = Inr len"
    and lo: "loader = (DataLoader_record ds (Some (if is_train then batch_size a else batch_size_eval a))
                       (is_train \<and> smp = None) (workers a) True smp is_train)
                    \<lparr>num_samples := Some (int len)\<rparr>"
    and i: "info = \<lparr>dataloader = loader\<lparr>num_batches := Some (len_DataLoader w loader)\<rparr>,
                   sampler = smp\<rparr>"
    by blast
  show "\<exists>len. py_len (dl_dataset (dataloader info)) = Inr len \<and>
             num_samples (dataloader info) = Some (int len)"
    using l by (simp add: i lo DataLoader_def DataLoader_record_def)
  show "num_batches (dataloader info) =
        Some (len_DataLoader w ((dataloader info)\<lparr>num_batches := None\<rparr>))"
    by (simp add: i lo DataLoader_def DataLoader_record_def)
  show "\<exists>ds idcs. dl_dataset (dataloader info) = Subset ds idcs" if "debug_run a"
    using debug_subset_Inr [OF d] that by (auto simp: i lo DataLoader_def DataLoader_record_def)
next
  assume h: "get_csv_dataset w a f is_train = Inr info"
  from get_csv_dataset_Inr [OF h] obtain ds0 ds len smp loader where
    d: "debug_subset w a 0 ds0 = Inr ds"
    and l: "py_len ds = Inr len"
    and lo: "loader = (DataLoader_record ds (Some (if is_train then batch_size a else batch_size_eval a))
                       (smp = None) (workers a) True smp is_train)
                    \<lparr>num_samples := Some (int len)\<rparr>"
    and i: "info = \<lparr>dataloader = loader\<lparr>num_batches := Some (len_DataLoader w loader)\<rparr>,
                   sampler = smp\<rparr>"
    by blast
  show "\<exists>len. py_len (dl_dataset (dataloader info)) = Inr len \<and>
             num_samples (dataloader info) = Some (int len)"
    using l by (simp add: i lo DataLoader_def DataLoader_record_def)
  show "num_batches (dataloader info) =
        Some (len_DataLoader w ((dataloader info)\<lparr>num_batches := None\<rparr>))"
    by (simp add: i lo DataLoader_def DataLoader_record_def)
  show "\<exists>ds idcs. dl_dataset (dataloader info) = Subset ds idcs" if "debug_run a"
    using debug_subset_Inr [OF d] that by (auto simp: i lo DataLoader_def DataLoader_record_def)
next
  assume h: "get_wds_dataset w a f is_train = Inr info"
  from get_wds_dataset_Inr [OF h]
  show "\<exists>shards total_size num_shards nsamples nbatches bs.
          (if is_train then train_data a else val_data a) = Some shards \<and>
          get_dataset_size w shards = Inr (total_size, num_shards) \<and>
          wds_counts w a is_train total_size num_shards = Inr (nsamples, nbatches, bs) \<and>
          num_samples (dataloader info) = Some nsamples \<and>
          num_batches (dataloader info) = Some nbatches"
    by (elim exE conjE) (simp add: DataLoader_def DataLoader_record_def)
next
  assume h: "get_imagenet w a fns split = Inr info"
  from get_imagenet_Inr [OF h]
  show "num_samples (dataloader info) = None" and "num_batches (dataloader info) = None"
    by (auto simp: DataLoader_def DataLoader_record_def)
qed

theorem loader_count_attributes_witness:
  "(\<exists>info. get_cellpainting_dataset demo_world demo_args () True = Inr info \<and>
       num_samples (dataloader info) = Some 5 \<and> num_batches (dataloader info) = Some 1) \<and>
   (\<exists>info. get_csv_dataset demo_world demo_args () False = Inr info \<and>
       num_samples (dataloader info) = Some 3 \<and> num_batches (dataloader info) = Some 1) \<and>
   (\<exists>info. get_wds_dataset demo_world demo_args () True = Inr info \<and>
       num_samples (dataloader info) = Some 20 \<and> num_batches (dataloader info) = Some 5) \<and>
   (\<exists>info. get_imagenet demo_world demo_args ((), ()) ''val'' = Inr info \<and>
       num_samples (dataloader info) = None \<and> num_batches (dataloader info) = None)"
proof -
  have "\<exists>i. get_cellpainting_dataset demo_world demo_args () True = Inr i \<and>
          num_samples (dataloader i) = Some 5"
    by (simp add: get_cellpainting_dataset_def demo_world_def demo_args_def truthy_def
        debug_subset_def DataLoader_def DataLoader_record_def Let_def)
  then obtain i1 where i1: "get_cellpainting_dataset demo_world demo_args () True = Inr i1"
    and n1: "num_samples (dataloader i1) = Some 5"
    by blast
  have "\<exists>i. get_csv_dataset demo_world demo_args () False = Inr i \<and>
          num_samples (dataloader i) = Some 3"
    by (simp add: get_csv_dataset_def CsvDataset_init_def df_column_def demo_frame_def
        demo_world_def demo_args_def debug_subset_def DataLoader_def DataLoader_record_def Let_def)
  then obtain i2 where i2: "get_csv_dataset demo_world demo_args () False = Inr i2"
    and n2: "num_samples (dataloader i2) = Some 3"
    by blast
  have "\<exists>i. get_wds_dataset demo_world demo_args () True = Inr i \<and>
          num_samples (dataloader i) = Some 20 \<and> num_batches (dataloader i) = Some 5"
    by (simp add: get_wds_dataset_def get_dataset_size_def wds_counts_def math_ceil_quotient_def seed_generators_def
      demo_world_def demo_args_def demo_sizes_def debug_subset_def DataLoader_def DataLoader_record_def
      os_path_dirname_def os_path_join_def os_path_basename_def Let_def)
  then obtain i3 where i3: "get_wds_dataset demo_world demo_args () True = Inr i3"
    and n3: "num_samples (dataloader i3) = Some 20" "num_batches (dataloader i3) = Some 5"
    by blast
  have "\<exists>i. get_imagenet demo_world demo_args ((), ()) ''val'' = Inr i"
    by (simp add: get_imagenet_def get_imagenet_sampler_def demo_world_def demo_args_def debug_subset_def DataLoader_def DataLoader_record_def
        Let_def)
  then obtain i4 where i4: "get_imagenet demo_world demo_args ((), ()) ''val'' = Inr i4"
    by blast
  show ?thesis
    using i1 n1 i2 n2 i3 n3 i4
      loader_count_attributes [where w = demo_world and a = demo_args and f = "()"
        and is_train = True and info = i1]
      loader_count_attributes [where w = demo_world and a = demo_args and f = "()"
        and is_train = False and info = i2]
      loader_count_attributes [where w = demo_world and a = demo_args and fns = "((), ())"
        and split = "''val''" and info = i4]
    by (simp add: demo_world_def)
qed

text \<open>The claim C3 as stated fails for \<^verbatim>\<open>get_imagenet\<close>: the loader it returns for the
  validation split of the example has no \<^verbatim>\<open>num_samples\<close> and no \<^verbatim>\<open>num_batches\<close>.\<close>

theorem get_imagenet_sets_no_counts:
  "get_imagenet demo_world demo_args ((), ()) ''val'' =
     Inr \<lparr>dataloader =
            \<lparr>dl_dataset = ImageFolder ''imagenet/val'' () [0, 1, 0, 2],
             dl_batch_size = Some 4, dl_shuffle = True, dl_num_workers = 1,
             dl_pin_memory = False, dl_sampler = None, dl_drop_last = False,
             dl_repeat_slice = None, num_samples = None, num_batches = None\<rparr>,
          sampler = None\<rparr>"
  by (simp add: get_imagenet_def get_imagenet_sampler_def demo_world_def demo_args_def debug_subset_def DataLoader_def DataLoader_record_def)

section \<open>The sampler of a loader\<close>

text \<open>
  C4, as the code has it. A \<open>DataInfo\<close> pairs a loader with a sampler that may be absent.
  For \<^verbatim>\<open>get_csv_dataset\<close> and \<^verbatim>\<open>get_cellpainting_dataset\<close> the sampler is a
  DistributedSampler over the loader's dataset, seeded with \<^verbatim>\<open>args.seed\<close>, exactly when
  \<^verbatim>\<open>args.distributed\<close> holds and \<^verbatim>\<open>is_train\<close> is true, and None otherwise; it is also
  the sampler of the loader; the CSV loader shuffles exactly when the sampler is None, the
  CellPainting loader exactly when the sampler is None and \<^verbatim>\<open>is_train\<close> is true. For
  \<^verbatim>\<open>get_wds_dataset\<close> the sampler is always None and the loader is built without
  shuffling.
\<close>

theorem sampler_field:
  "(get_csv_dataset w a f is_train = Inr info \<longrightarrow>
      sampler info =
        (if distributed a \<and> is_train
         then Some (DistributedSampler (dl_dataset (dataloader info)) (seed a)) else None) \<and>
      dl_sampler (dataloader info) = sampler info \<and>
      dl_shuffle (dataloader info) = (sampler info = None)) \<and>
   (get_cellpainting_dataset w a f is_train = Inr info \<longrightarrow>
      sampler info =
        (if distributed a \<and> is_train
         then Some (DistributedSampler (dl_dataset (dataloader info)) (seed a)) else None) \<and>
      dl_sampler (dataloader info) = sampler info \<and>
      dl_shuffle (dataloader info) = (is_train \<and> sampler info = None)) \<and>
   (get_wds_dataset w a f is_train = Inr info \<longrightarrow>
      sampler info = None \<and> dl_sampler (dataloader info) = None \<and>
      \<not> dl_shuffle (dataloader info))"
proof (intro conjI impI)
  assume h: "get_csv_dataset w a f is_train = Inr info"
  from get_csv_dataset_Inr [OF h] obtain ds smp loader where
    s: "smp = (if distributed a \<and> is_train then Some (DistributedSampler ds (seed a)) else None)"
    and lo: "\<exists>len. loader = (DataLoader_record ds (Some (if is_train then batch_size a else batch_size_eval a))
                       (smp = None) (workers a) True smp is_train)
                    \<lparr>num_samples := Some (int len)\<rparr>"
    and i: "info = \<lparr>dataloader = loader\<lparr>num_batches := Some (len_DataLoader w loader)\<rparr>,
                   sampler = smp\<rparr>"
    by blast
  show "sampler info =
        (if distributed a \<and> is_train
         then Some (DistributedSampler (dl_dataset (dataloader info)) (seed a)) else None)"
    using lo by (auto simp: i s DataLoader_def DataLoader_record_def)
  show "dl_sampler (dataloader info) = sampler info"
    using lo by (auto simp: i DataLoader_def DataLoader_record_def)
  show "dl_shuffle (dataloader info) = (sampler info = None)"
    using lo by (auto simp: i DataLoader_def DataLoader_record_def)
next
  assume h: "get_cellpainting_dataset w a f is_train = Inr info"
  from get_cellpainting_dataset_Inr [OF h] obtain ds smp loader where
    s: "smp = (if distributed a \<and> is_train then Some (DistributedSampler ds (seed a)) else None)"
    and lo: "\<exists>len. loader = (DataLoader_record ds (Some (if is_train then batch_size a else batch_size_eval a))
                       (is_train \<and> smp = None) (workers a) True smp is_train)
                    \<lparr>num_samples := Some (int len)\<rparr>"
    and i: "info = \<lparr>dataloader = loader\<lparr>num_batches := Some (len_DataLoader w loader)\<rparr>,
                   sampler = smp\<rparr>"
    by blast
  show "sampler info =
        (if distributed a \<and> is_train
         then Some (DistributedSampler (dl_dataset (dataloader info)) (seed a)) else None)"
    using lo by (auto simp: i s DataLoader_def DataLoader_record_def)
  show "dl_sampler (dataloader info) = sampler info"
    using lo by (auto simp: i DataLoader_def DataLoader_record_def)
  show "dl_shuffle (dataloader info) = (is_train \<and> sampler info = None)"
    using lo by (auto simp: i DataLoader_def DataLoader_record_def)
next
  assume h: "get_wds_dataset w a f is_train = Inr info"
  from get_wds_dataset_Inr [OF h]
  show "sampler info = None" and "dl_sampler (dataloader info) = None"
    and "\<not> dl_shuffle (dataloader info)"
    by (auto simp: DataLoader_def DataLoader_record_def)
qed

theorem sampler_field_witness:
  "(\<exists>info. get_csv_dataset demo_world demo_args () True = Inr info \<and>
       sampler info = Some (DistributedSampler (dl_dataset (dataloader info)) 7) \<and>
       \<not> dl_shuffle (dataloader info)) \<and>
   (\<exists>info. get_cellpainting_dataset demo_world (demo_args\<lparr>distributed := False\<rparr>) () True = Inr info \<and>
       sampler info = None \<and> dl_shuffle (dataloader info)) \<and>
   (\<exists>info. get_wds_dataset demo_world demo_args () True = Inr info \<and>
       sampler info = None \<and> \<not> dl_shuffle (dataloader info))"
proof -
  have "\<exists>i. get_csv_dataset demo_world demo_args () True = Inr i"
    by (simp add: get_csv_dataset_def CsvDataset_init_def df_column_def demo_frame_def
        demo_world_def demo_args_def debug_subset_def DataLoader_def DataLoader_record_def Let_def)
  then obtain i1 where i1: "get_csv_dataset demo_world demo_args () True = Inr i1"
    by blast
  have "\<exists>i. get_cellpainting_dataset demo_world (demo_args\<lparr>distributed := False\<rparr>) () True = Inr i"
    by (simp add: get_cellpainting_dataset_def demo_world_def demo_args_def truthy_def
        debug_subset_def DataLoader_def DataLoader_record_def Let_def)
  then obtain i2 where
    i2: "get_cellpainting_dataset demo_world (demo_args\<lparr>distributed := False\<rparr>) () True = Inr i2"
    by blast
  have "\<exists>i. get_wds_dataset demo_world demo_args () True = Inr i"
    by (simp add: get_wds_dataset_def get_dataset_size_def wds_counts_def math_ceil_quotient_def seed_generators_def
      demo_world_def demo_args_def demo_sizes_def debug_subset_def DataLoader_def DataLoader_record_def
      os_path_dirname_def os_path_join_def os_path_basename_def Let_def)
  then obtain i3 where i3: "get_wds_dataset demo_world demo_args () True = Inr i3"
    by blast
  show ?thesis
    using i1 i2 i3
      sampler_field [where w = demo_world and a = demo_args and f = "()"
        and is_train = True and info = i1]
      sampler_field [where w = demo_world and a = "demo_args\<lparr>distributed := False\<rparr>" and f = "()"
        and is_train = True and info = i2]
      sampler_field [where w = demo_world and a = demo_args and f = "()"
        and is_train = True and info = i3]
    by (simp add: demo_args_def)
qed

text \<open>The claim C4 as stated fails for \<^verbatim>\<open>get_wds_dataset\<close>: for training the sampler is
  None, and the loader is built with \<^verbatim>\<open>shuffle=False\<close>.\<close>

theorem get_wds_dataset_loader_does_not_shuffle:
  "get_wds_dataset demo_world demo_args () True =
     Inr \<lparr>dataloader =
            \<lparr>dl_dataset = WebDataset ''shards/{0..1}.tar'' True True () 2 False None,
             dl_batch_size = None, dl_shuffle = False, dl_num_workers = 1,
             dl_pin_memory = False, dl_sampler = None, dl_drop_last = False,
             dl_repeat_slice = Some (2, 5), num_samples = Some 20, num_batches = Some 5\<rparr>,
          sampler = None\<rparr>"
  by (simp add: get_wds_dataset_def get_dataset_size_def wds_counts_def math_ceil_quotient_def seed_generators_def
      demo_world_def demo_args_def demo_sizes_def debug_subset_def DataLoader_def DataLoader_record_def
      os_path_dirname_def os_path_join_def os_path_basename_def)

section \<open>The size of a sharded dataset\<close>

lemma shard_sizes_found:
  "(\<forall>shard \<in> set xs. sizes (os_path_basename shard) \<noteq> None) \<Longrightarrow>
     shard_sizes sizes xs = Inr (map (\<lambda>shard. the (sizes (os_path_basename shard))) xs)"
  by (induction xs) auto

lemma dirname_of_file_in_dir:
  assumes "dir \<noteq> []" and "last dir \<noteq> CHR ''/''" and "CHR ''/'' \<notin> set name"
  shows "os_path_dirname (dir @ ''/'' @ name) = dir"
proof -
  have "dropWhile (\<lambda>c. c \<noteq> CHR ''/'') (rev name @ CHR ''/'' # rev dir) = CHR ''/'' # rev dir"
    using assms(3) by (auto simp: dropWhile_append3)
  then have head: "rev (dropWhile (\<lambda>c. c \<noteq> CHR ''/'') (rev (dir @ ''/'' @ name))) = dir @ ''/''"
    by simp
  have "last dir \<in> set dir"
    using assms(1) by simp
  then have notall: "\<not> list_all (\<lambda>c. c = CHR ''/'') (dir @ ''/'')"
    using assms(2) by (auto simp: list_all_iff)
  obtain c cs where r: "rev dir = c # cs" and c: "c \<noteq> CHR ''/''"
    using assms(1,2) by (cases dir rule: rev_cases) auto
  have d: "dir = rev cs @ [c]"
    using arg_cong [OF r, of rev] by simp
  have "rev (dropWhile (\<lambda>c. c = CHR ''/'') (rev (dir @ ''/''))) = dir"
    using c by (simp add: d)
  then show ?thesis
    unfolding os_path_dirname_def Let_def head using notall by simp
qed

lemma basename_of_file_in_dir:
  "CHR ''/'' \<notin> set name \<Longrightarrow> os_path_basename (dir @ ''/'' @ name) = name"
proof -
  assume "CHR ''/'' \<notin> set name"
  then have "takeWhile (\<lambda>c. c \<noteq> CHR ''/'') (rev name @ CHR ''/'' # rev dir) = rev name"
    by (auto simp: takeWhile_tail)
  then show ?thesis
    by (simp add: os_path_basename_def)
qed

text \<open>
  C6. When the pattern expands to \<open>shards_list\<close> and the manifest \<^verbatim>\<open>sizes.json\<close> beside the
  pattern records a size for the base name of every shard, \<^verbatim>\<open>get_dataset_size\<close> returns
  the sum of these sizes and the number of shards. For a pattern \<^verbatim>\<open>dir/name\<close> the manifest
  read is \<^verbatim>\<open>dir/sizes.json\<close>, and the base name of a shard \<^verbatim>\<open>d/n\<close> is \<^verbatim>\<open>n\<close>.
\<close>

theorem get_dataset_size_total:
  assumes "braceexpand w shards = Inr shards_list"
    and "read_sizes w (os_path_join (os_path_dirname shards) ''sizes.json'') = Inr sizes"
    and "\<forall>shard \<in> set shards_list. sizes (os_path_basename shard) \<noteq> None"
  shows "get_dataset_size w shards =
           Inr ((\<Sum>shard\<leftarrow>shards_list. the (sizes (os_path_basename shard))), length shards_list) \<and>
         (\<forall>dir name. dir \<noteq> [] \<and> last dir \<noteq> CHR ''/'' \<and> CHR ''/'' \<notin> set name \<longrightarrow>
            os_path_join (os_path_dirname (dir @ ''/'' @ name)) ''sizes.json'' = dir @ ''/sizes.json'' \<and>
            os_path_basename (dir @ ''/'' @ name) = name)"
proof
  show "get_dataset_size w shards =
           Inr ((\<Sum>shard\<leftarrow>shards_list. the (sizes (os_path_basename shard))), length shards_list)"
    using assms(1,2) shard_sizes_found [OF assms(3)]
    by (simp add: get_dataset_size_def)
  show "\<forall>dir name. dir \<noteq> [] \<and> last dir \<noteq> CHR ''/'' \<and> CHR ''/'' \<notin> set name \<longrightarrow>
            os_path_join (os_path_dirname (dir @ ''/'' @ name)) ''sizes.json'' = dir @ ''/sizes.json'' \<and>
            os_path_basename (dir @ ''/'' @ name) = name"
  proof (intro allI impI, elim conjE)
    fix dir name :: string
    assume d: "dir \<noteq> []" "last dir \<noteq> CHR ''/''" and n: "CHR ''/'' \<notin> set name"
    have "os_path_join dir ''sizes.json'' = dir @ ''/sizes.json''"
      using d by (simp add: os_path_join_def)
    then show "os_path_join (os_path_dirname (dir @ ''/'' @ name)) ''sizes.json'' = dir @ ''/sizes.json'' \<and>
            os_path_basename (dir @ ''/'' @ name) = name"
      by (simp only: dirname_of_file_in_dir [OF d n] basename_of_file_in_dir [OF n]) 
  qed
qed

theorem get_dataset_size_total_witness:
  "braceexpand demo_world ''shards/{0..1}.tar'' = Inr [''shards/0.tar'', ''shards/1.tar''] \<and>
   read_sizes demo_world (os_path_join (os_path_dirname ''shards/{0..1}.tar'') ''sizes.json'') = Inr demo_sizes \<and>
   demo_sizes (os_path_basename ''shards/0.tar'') = Some 10 \<and>
   demo_sizes (os_path_basename ''shards/1.tar'') = Some 11 \<and>
   get_dataset_size demo_world ''shards/{0..1}.tar'' = Inr (21, 2)"
proof -
  have b: "braceexpand demo_world ''shards/{0..1}.tar'' = Inr [''shards/0.tar'', ''shards/1.tar'']"
    by (simp add: demo_world_def)
  have r: "read_sizes demo_world (os_path_join (os_path_dirname ''shards/{0..1}.tar'') ''sizes.json'') = Inr demo_sizes"
    by (simp add: demo_world_def os_path_join_def os_path_dirname_def)
  have s: "demo_sizes (os_path_basename ''shards/0.tar'') = Some 10"
    "demo_sizes (os_path_basename ''shards/1.tar'') = Some 11"
    by (simp_all add: demo_sizes_def os_path_basename_def)
  have k: "\<forall>shard \<in> set [''shards/0.tar'', ''shards/1.tar'']. demo_sizes (os_path_basename shard) \<noteq> None"
    using s by simp
  show ?thesis
    using get_dataset_size_total [OF b r k] b r s by simp
qed

section \<open>Parallel sequences\<close>

lemma df_column_length: "df_column df key = Inr col \<Longrightarrow> length col = length (df_rows df)"
  by (auto simp: df_column_def split: option.splits)

lemma join_images_length: "join_images folder cells = Inr paths \<Longrightarrow> length paths = length cells"
  by (induction folder cells arbitrary: paths rule: join_images.induct) (auto split: sum.splits)

lemma CsvDataset_init_Inr:
  assumes "CsvDataset_init w fname tfm ik ck folder sep = Inr ds"
  shows "\<exists>df names paths caps. read_csv w fname sep = Inr df \<and>
           df_column df ik = Inr names \<and> join_images folder names = Inr paths \<and>
           df_column df ck = Inr caps \<and> ds = CsvDataset paths caps tfm"
  using assms by (auto simp: CsvDataset_init_def split: sum.splits)

lemma count_loop_result:
  "count_loop n k batches =
     (if list_all (\<lambda>b. length (fst b) = length (snd b)) batches
      then Inr (n + sum_list (map (\<lambda>b. length (fst b)) batches), k + length batches)
      else Inl AssertionError)"
  by (induction n k batches rule: count_loop.induct) auto

lemma py_index_in_range:
  "0 \<le> i \<Longrightarrow> i < int (length xs) \<Longrightarrow> py_index xs i = Inr (xs ! nat i)"
  by (simp add: py_index_def Let_def)

text \<open>
  C7. A \<open>CsvDataset\<close> built from a file holds one image path and one caption per row of
  the file, and its length is that number; an index within the length yields one pair of
  the transformed image and the tokens of the text of the caption (the image opening, the
  tokenizer giving one row); \<^verbatim>\<open>count_samples\<close> returns only when every batch has as many images as
  texts, and then counts all batches and all images.
\<close>

theorem parallel_lengths:
  "(CsvDataset_init w fname tfm ik ck folder sep = Inr ds \<longrightarrow>
      (\<exists>df. read_csv w fname sep = Inr df \<and>
            length (images ds) = length (df_rows df) \<and>
            length (captions ds) = length (df_rows df)) \<and>
      py_len ds = Inr (length (captions ds)) \<and>
      CsvDataset_len ds = length (images ds)) \<and>
   (length imgs = length caps \<and> 0 \<le> idx \<and> idx < int (CsvDataset_len (CsvDataset imgs caps tf)) \<and>
    image_open (imgs ! nat idx) = Inr img \<and> tokenize [py_str (caps ! nat idx)] = [row] \<longrightarrow>
      CsvDataset_getitem image_open tokenize (CsvDataset imgs caps tf) idx = Inr (tf img, row)) \<and>
   (snd (count_samples environ batches) =
      (if list_all (\<lambda>b. length (fst b) = length (snd b)) batches
       then Inr (sum_list (map (\<lambda>b. length (fst b)) batches), length batches)
       else Inl AssertionError))"
proof (intro conjI impI)
  assume h: "CsvDataset_init w fname tfm ik ck folder sep = Inr ds"
  from CsvDataset_init_Inr [OF h] obtain df names paths caps where
    r: "read_csv w fname sep = Inr df"
    and n: "df_column df ik = Inr names" and j: "join_images folder names = Inr paths"
    and c: "df_column df ck = Inr caps"
    and d: "ds = CsvDataset paths caps tfm"
    by blast
  show "\<exists>df. read_csv w fname sep = Inr df \<and>
            length (images ds) = length (df_rows df) \<and>
            length (captions ds) = length (df_rows df)"
    using r df_column_length [OF n] df_column_length [OF c] join_images_length [OF j]
    by (simp add: d)
  show "py_len ds = Inr (length (captions ds))"
    by (simp add: d)
  show "CsvDataset_len ds = length (images ds)"
    using df_column_length [OF n] df_column_length [OF c] join_images_length [OF j]
    by (simp add: d CsvDataset_len_def)
next
  assume "length imgs = length caps \<and> 0 \<le> idx \<and> idx < int (CsvDataset_len (CsvDataset imgs caps tf)) \<and>
    image_open (imgs ! nat idx) = Inr img \<and> tokenize [py_str (caps ! nat idx)] = [row]"
  then show "CsvDataset_getitem image_open tokenize (CsvDataset imgs caps tf) idx = Inr (tf img, row)"
    by (simp add: CsvDataset_getitem_def CsvDataset_len_def py_index_in_range py_index_def)
next
  show "snd (count_samples environ batches) =
      (if list_all (\<lambda>b. length (fst b) = length (snd b)) batches
       then Inr (sum_list (map (\<lambda>b. length (fst b)) batches), length batches)
       else Inl AssertionError)"
    by (simp add: count_samples_def count_loop_result)
qed

theorem parallel_lengths_witness:
  "(\<exists>ds. CsvDataset_init demo_world ''pairs/val.tsv'' () ''filepath'' ''title'' ''imgs'' ''|'' = Inr ds \<and>
      length (images ds) = 3 \<and> length (captions ds) = 3 \<and> CsvDataset_len ds = 3) \<and>
   CsvDataset_getitem (\<lambda>path. Inr (length path)) (map length)
      (CsvDataset [''imgs/a.png'', ''imgs/b.png''] [Str ''x'', Str ''yy''] Suc) 1 = Inr (11, 2) \<and>
   snd (count_samples Map.empty [([1, 2, 3 :: nat], [''a'', ''b'', ''c'']), ([4], [''d''])]) = Inr (4, 2) \<and>
   snd (count_samples Map.empty [([1, 2, 3 :: nat], [''a'', ''b''])]) = Inl AssertionError"
proof -
  have "\<exists>ds. CsvDataset_init demo_world ''pairs/val.tsv'' () ''filepath'' ''title'' ''imgs'' ''|'' = Inr ds"
    by (simp add: CsvDataset_init_def df_column_def demo_frame_def demo_world_def)
  then obtain ds where
    ds: "CsvDataset_init demo_world ''pairs/val.tsv'' () ''filepath'' ''title'' ''imgs'' ''|'' = Inr ds"
    by blast
  have 1: "\<exists>ds. CsvDataset_init demo_world ''pairs/val.tsv'' () ''filepath'' ''title'' ''imgs'' ''|'' = Inr ds \<and>
      length (images ds) = 3 \<and> length (captions ds) = 3 \<and> CsvDataset_len ds = 3"
    using ds parallel_lengths [where w = demo_world and fname = "''pairs/val.tsv''" and tfm = "()"
        and ik = "''filepath''" and ck = "''title''" and folder = "''imgs''" and sep = "''|''"
        and ds = ds, THEN conjunct1]
    by (simp add: demo_world_def demo_frame_def)
  have 2: "CsvDataset_getitem (\<lambda>path. Inr (length path)) (map length)
      (CsvDataset [''imgs/a.png'', ''imgs/b.png''] [Str ''x'', Str ''yy''] Suc) 1 = Inr (11, 2)"
    using parallel_lengths [where imgs = "[''imgs/a.png'', ''imgs/b.png'']" and caps = "[Str ''x'', Str ''yy'']"
        and tf = Suc and idx = 1 and image_open = "\<lambda>path. Inr (length path)"
        and tokenize = "map length" and img = 10 and row = 2, THEN conjunct2, THEN conjunct1]
    by (simp add: CsvDataset_len_def)
  have 3: "snd (count_samples Map.empty [([1, 2, 3 :: nat], [''a'', ''b'', ''c'']), ([4], [''d''])]) = Inr (4, 2)"
    using parallel_lengths [where environ = Map.empty
        and batches = "[([1, 2, 3 :: nat], [''a'', ''b'', ''c'']), ([4], [''d''])]",
        THEN conjunct2, THEN conjunct2]
    by simp
  have 4: "snd (count_samples Map.empty [([1, 2, 3 :: nat], [''a'', ''b''])]) = Inl AssertionError"
    using parallel_lengths [where environ = Map.empty
        and batches = "[([1, 2, 3 :: nat], [''a'', ''b''])]", THEN conjunct2, THEN conjunct2]
    by simp
  show ?thesis
    using 1 2 3 4 by blast
qed

section \<open>The counts of a distributed web dataset\<close>

lemma math_ceil_quotient_exact:
  "0 \<le> x \<Longrightarrow> x < 2 ^ 53 \<Longrightarrow> 0 < y \<Longrightarrow> y < 2 ^ 53 \<Longrightarrow>
     math_ceil_quotient w x y = Inr \<lceil>real_of_int x / real_of_int y\<rceil>"
  by (simp add: math_ceil_quotient_def ceiling_divide_eq_div)

lemma math_ceil_quotient_Inr: "math_ceil_quotient w x y = Inr m \<Longrightarrow> y \<noteq> 0"
  by (auto simp: math_ceil_quotient_def split: if_splits)

lemma debug_subset_returns:
  "\<not> debug_run a \<or> (\<exists>n. py_len ds = Inr n) \<Longrightarrow> \<exists>ds'. debug_subset w a k ds = Inr ds'"
  by (auto simp: debug_subset_def get_data_subset_default_def get_data_subset_def Let_def)

lemma iterable_debug_subset:
  "debug_subset w a k ds = Inr ds' \<Longrightarrow> iterable ds' \<Longrightarrow> iterable ds"
  by (auto simp: debug_subset_def get_data_subset_default_def get_data_subset_def Let_def
      split: if_splits sum.splits)

lemma wds_counts_distributed:
  assumes "distributed a" and "math_ceil_quotient w (int num_shards) (world_size a) = Inr m"
    and "batch_size a \<noteq> 0" and "num_shards \<noteq> 0"
  shows "wds_counts w a True raw num_shards =
           Inr ((world_size a * (raw * m div int num_shards))
                  div (batch_size a * world_size a) * batch_size a * world_size a,
                (world_size a * (raw * m div int num_shards))
                  div (batch_size a * world_size a),
                batch_size a)"
  using assms math_ceil_quotient_Inr [OF assms(2)] by (simp add: wds_counts_def Let_def)

lemma WebLoader_returns:
  "0 \<le> nw \<Longrightarrow> DataLoader ds None False nw False None False =
     Inr (DataLoader_record ds None False nw False None False)"
  by (simp add: DataLoader_def)

lemma loader_batches_repeat_slice:
  "dl_repeat_slice loader = Some (2, nb) \<Longrightarrow> 0 \<le> nb \<Longrightarrow>
     loader_batches loader pass = Inr (take (nat nb) (pass 0 @ pass 1))"
  by (simp add: loader_batches_def numeral_2_eq_2)

text \<open>
  C8. In distributed training \<^verbatim>\<open>get_wds_dataset\<close> returns a loader with
  \<open>num_batches = (world_size * (raw * ceil (num_shards / world_size) div num_shards)) div
  (batch_size * world_size)\<close> and \<open>num_samples = num_batches * batch_size * world_size\<close>,
  a multiple of \<open>batch_size * world_size\<close>, the ceiling being the exact one for shard
  counts and world sizes below \<open>2 ^ 53\<close>. The loader is repeated twice and sliced to
  \<open>num_batches\<close> batches: on a node it yields the first \<open>num_batches\<close> batches of two
  passes over the data of the node, which are \<open>num_batches\<close> batches only when the two
  passes hold that many.
\<close>

theorem wds_distributed_counts:
  assumes "train_data a = Some shards"
    and "get_dataset_size w shards = Inr (raw_num_samples, num_shards)"
    and "distributed a"
    and "math_ceil_quotient w (int num_shards) (world_size a) = Inr max_shards_per_node"
    and "batch_size a \<noteq> 0" and "num_shards \<noteq> 0"
    and "0 \<le> seed a" and "seed a < 2 ^ 32" and "0 \<le> workers a"
    and "\<not> debug_run a \<or> len_WebDataset w shards \<noteq> None"
  shows "\<exists>info nb. get_wds_dataset w a f True = Inr info \<and>
           nb = (world_size a * (raw_num_samples * max_shards_per_node div int num_shards))
                div (batch_size a * world_size a) \<and>
           (0 < world_size a \<and> world_size a < 2 ^ 53 \<and> int num_shards < 2 ^ 53 \<longrightarrow>
              max_shards_per_node = \<lceil>real num_shards / real_of_int (world_size a)\<rceil>) \<and>
           num_batches (dataloader info) = Some nb \<and>
           num_samples (dataloader info) = Some (nb * batch_size a * world_size a) \<and>
           (batch_size a * world_size a) dvd (nb * batch_size a * world_size a) \<and>
           dl_repeat_slice (dataloader info) = Some (2, nb) \<and>
           (0 \<le> nb \<longrightarrow>
              (\<forall>pass :: nat \<Rightarrow> 'b list.
                 (\<exists>batches. loader_batches (dataloader info) pass = Inr batches \<and>
                    batches = take (nat nb) (pass 0 @ pass 1) \<and>
                    length batches = min (nat nb) (length (pass 0) + length (pass 1)))))"
proof -
  define nb where "nb = (world_size a * (raw_num_samples * max_shards_per_node div int num_shards))
     div (batch_size a * world_size a)"
  have c: "wds_counts w a True raw_num_samples num_shards =
             Inr (nb * batch_size a * world_size a, nb, batch_size a)"
    unfolding nb_def by (rule wds_counts_distributed) (rule assms)+
  have sd: "seed_generators (seed a) = Inr ()"
    using assms(7,8) by (simp add: seed_generators_def)
  have "\<not> debug_run a \<or>
        (\<exists>n. py_len (WebDataset shards True True f (batch_size a) (\<not> True \<or> \<not> distributed a)
                (len_WebDataset w shards)) = Inr n)"
    using assms(10) by auto
  from debug_subset_returns [OF this] obtain ds where
    d: "debug_subset w a 0 (WebDataset shards True True f (batch_size a)
          (\<not> True \<or> \<not> distributed a) (len_WebDataset w shards)) = Inr ds"
    by blast
  let ?info = "\<lparr>dataloader = (DataLoader_record ds None False (workers a) False None False)
              \<lparr>dl_repeat_slice := Some (2, nb), num_samples := Some (nb * batch_size a * world_size a),
               num_batches := Some nb\<rparr>,
           sampler = None\<rparr>"
  have r: "get_wds_dataset w a f True = Inr ?info"
    using assms(1,2,3) c sd d WebLoader_returns [OF assms(9), of ds]
    by (simp add: get_wds_dataset_def DataLoader_record_def)
  have rs: "dl_repeat_slice (dataloader ?info) = Some (2, nb)"
    by (simp add: DataLoader_record_def)
  have e: "0 < world_size a \<and> world_size a < 2 ^ 53 \<and> int num_shards < 2 ^ 53 \<longrightarrow>
              max_shards_per_node = \<lceil>real num_shards / real_of_int (world_size a)\<rceil>"
  proof
    assume b: "0 < world_size a \<and> world_size a < 2 ^ 53 \<and> int num_shards < 2 ^ 53"
    then have "math_ceil_quotient w (int num_shards) (world_size a) =
        Inr \<lceil>real_of_int (int num_shards) / real_of_int (world_size a)\<rceil>"
      by (intro math_ceil_quotient_exact) simp_all
    with assms(4) show "max_shards_per_node = \<lceil>real num_shards / real_of_int (world_size a)\<rceil>"
      by simp
  qed
  have dv: "(batch_size a * world_size a) dvd (nb * batch_size a * world_size a)"
    by (simp add: mult.assoc)
  have y: "0 \<le> nb \<longrightarrow>
              (\<forall>pass :: nat \<Rightarrow> 'b list.
                 (\<exists>batches. loader_batches (dataloader ?info) pass = Inr batches \<and>
                    batches = take (nat nb) (pass 0 @ pass 1) \<and>
                    length batches = min (nat nb) (length (pass 0) + length (pass 1))))"
  proof (intro impI allI)
    fix pass :: "nat \<Rightarrow> 'b list"
    assume "0 \<le> nb"
    from loader_batches_repeat_slice [OF rs this]
    have l: "loader_batches (dataloader ?info) pass = Inr (take (nat nb) (pass 0 @ pass 1))" .
    have "length (take (nat nb) (pass 0 @ pass 1)) = min (nat nb) (length (pass 0) + length (pass 1))"
      by (simp add: min.commute)
    with l show "\<exists>batches. loader_batches (dataloader ?info) pass = Inr batches \<and>
                    batches = take (nat nb) (pass 0 @ pass 1) \<and>
                    length batches = min (nat nb) (length (pass 0) + length (pass 1))"
      by blast
  qed
  have nbs: "num_batches (dataloader ?info) = Some nb"
    and nss: "num_samples (dataloader ?info) = Some (nb * batch_size a * world_size a)"
    by (simp_all add: DataLoader_record_def)
  from r e nbs nss dv rs y show ?thesis
    unfolding nb_def [symmetric] by (intro exI [of _ ?info] exI [of _ nb] conjI) (rule refl | assumption)+
qed

text \<open>With shards of 100 samples and of one sample on two nodes the loader reports 25
  batches; the node of the large shard yields 25 batches, the node of the small shard
  none.\<close>

theorem wds_distributed_counts_witness:
  "train_data demo_args = Some ''shards/{0..1}.tar'' \<and>
   get_dataset_size lopsided_world ''shards/{0..1}.tar'' = Inr (101, 2) \<and>
   distributed demo_args \<and> world_size demo_args = 2 \<and> batch_size demo_args = 2 \<and>
   math_ceil_quotient lopsided_world 2 2 = Inr 1 \<and>
   (\<exists>info. get_wds_dataset lopsided_world demo_args () True = Inr info \<and>
      num_batches (dataloader info) = Some 25 \<and>
      num_samples (dataloader info) = Some 100 \<and>
      dl_repeat_slice (dataloader info) = Some (2, 25) \<and>
      loader_batches (dataloader info) large_shard_pass = Inr (replicate 25 0) \<and>
      loader_batches (dataloader info) small_shard_pass = Inr [])"
proof -
  have t: "train_data demo_args = Some ''shards/{0..1}.tar''"
    and di: "distributed demo_args" and bs: "batch_size demo_args \<noteq> 0"
    and s0: "0 \<le> seed demo_args" and s1: "seed demo_args < 2 ^ 32" and wk: "0 \<le> workers demo_args"
    and db: "\<not> debug_run demo_args \<or> len_WebDataset lopsided_world ''shards/{0..1}.tar'' \<noteq> None"
    and ws: "world_size demo_args = 2" and b2: "batch_size demo_args = 2"
    by (simp_all add: demo_args_def)
  have s: "get_dataset_size lopsided_world ''shards/{0..1}.tar'' = Inr (101, 2)"
    by (simp add: get_dataset_size_def lopsided_world_def demo_world_def lopsided_sizes_def
        os_path_dirname_def os_path_join_def os_path_basename_def)
  have m: "math_ceil_quotient lopsided_world 2 2 = Inr 1"
    by (simp add: math_ceil_quotient_def)
  then have mc: "math_ceil_quotient lopsided_world (int 2) (world_size demo_args) = Inr 1"
    by (simp add: ws)
  have two: "(2::nat) \<noteq> 0"
    by simp
  from wds_distributed_counts [OF t s di mc bs two s0 s1 wk db, where f = "()" and 'b = nat]
  obtain info nb where g: "get_wds_dataset lopsided_world demo_args () True = Inr info"
    and nb: "nb = (world_size demo_args * (101 * 1 div int 2))
                div (batch_size demo_args * world_size demo_args)"
    and n1: "num_batches (dataloader info) = Some nb"
    and n2: "num_samples (dataloader info) = Some (nb * batch_size demo_args * world_size demo_args)"
    and rs: "dl_repeat_slice (dataloader info) = Some (2, nb)"
    and y: "0 \<le> nb \<longrightarrow>
              (\<forall>pass :: nat \<Rightarrow> nat list.
                 (\<exists>batches. loader_batches (dataloader info) pass = Inr batches \<and>
                    batches = take (nat nb) (pass 0 @ pass 1) \<and>
                    length batches = min (nat nb) (length (pass 0) + length (pass 1))))"
    by blast
  have v: "nb = 25"
    unfolding nb ws b2 by simp
  from y v have l: "loader_batches (dataloader info) large_shard_pass =
        Inr (take 25 (large_shard_pass 0 @ large_shard_pass 1))"
    and sm: "loader_batches (dataloader info) small_shard_pass =
        Inr (take 25 (small_shard_pass 0 @ small_shard_pass 1))"
    by auto
  have "take 25 (large_shard_pass 0 @ large_shard_pass 1) = replicate 25 (0::nat)"
    by (simp add: large_shard_pass_def)
  moreover have "take 25 (small_shard_pass 0 @ small_shard_pass 1) = ([]::nat list)"
    by (simp add: small_shard_pass_def)
  ultimately show ?thesis
    using t s di ws b2 m g n1 n2 rs l sm v by auto
qed

section \<open>The dictionary of loaders\<close>

lemma get_data_train:
  "get_data w a fns = Inr d \<Longrightarrow>
     (if truthy (train_index a)
      then \<exists>info. d ''train'' = Some info \<and> get_cellpainting_dataset w a (fst fns) True = Inr info
      else d ''train'' = None)"
  unfolding get_data_def Let_def
  by (auto split: if_splits sum.splits)

lemma get_data_val:
  "get_data w a fns = Inr d \<Longrightarrow>
     (if truthy (val_index a)
      then \<exists>info. d ''val'' = Some info \<and>
             get_cellpainting_dataset
               (if truthy (train_index a) then rng_skip (if debug_run a then 1 else 0) w else w)
               a (snd fns) False = Inr info
      else d ''val'' = None)"
  unfolding get_data_def Let_def
  by (auto split: if_splits sum.splits)

lemma get_data_imagenet_val:
  "get_data w a fns = Inr d \<Longrightarrow>
     (if imagenet_val a \<noteq> None
      then \<exists>info w'. d ''imagenet-val'' = Some info \<and> get_imagenet w' a fns ''val'' = Inr info
      else d ''imagenet-val'' = None)"
  unfolding get_data_def Let_def
  by (auto split: if_splits sum.splits)

lemma get_data_imagenet_v2:
  "get_data w a fns = Inr d \<Longrightarrow>
     (if imagenet_v2 a \<noteq> None
      then \<exists>info w'. d ''imagenet-v2'' = Some info \<and> get_imagenet w' a fns ''v2'' = Inr info
      else d ''imagenet-v2'' = None)"
  unfolding get_data_def Let_def
  by (auto split: if_splits sum.splits)

lemma get_data_dom:
  "get_data w a fns = Inr d \<Longrightarrow> dom d \<subseteq> {''train'', ''val'', ''imagenet-val'', ''imagenet-v2''}"
  unfolding get_data_def Let_def
  by (auto split: if_splits sum.splits)

lemma rng_skip_other_fields:
  "rng_skip n (w\<lparr>read_csv := r, braceexpand := b, read_sizes := z, len_WebDataset := l\<rparr>) =
     (rng_skip n w)\<lparr>read_csv := r, braceexpand := b, read_sizes := z, len_WebDataset := l\<rparr>"
  by (simp add: rng_skip_def)

lemma get_cellpainting_dataset_reads:
  "get_cellpainting_dataset
     (w\<lparr>read_csv := r, braceexpand := b, read_sizes := z, len_WebDataset := l\<rparr>)
     (a\<lparr>train_data := td, val_data := vd, csv_img_key := ik, csv_caption_key := ck,
        csv_separator := sep, path_data := pd\<rparr>) f is_train =
   get_cellpainting_dataset w a f is_train"
  by (simp add: get_cellpainting_dataset_def debug_subset_def Let_def cong: sum.case_cong if_cong)

lemma get_imagenet_reads:
  "get_imagenet
     (w\<lparr>read_csv := r, braceexpand := b, read_sizes := z, len_WebDataset := l\<rparr>)
     (a\<lparr>train_data := td, val_data := vd, csv_img_key := ik, csv_caption_key := ck,
        csv_separator := sep, path_data := pd\<rparr>) fns split =
   get_imagenet w a fns split"
  by (simp add: get_imagenet_def get_imagenet_sampler_def debug_subset_def Let_def
      cong: sum.case_cong option.case_cong if_cong)

lemma if_world_other_fields:
  "(if c then u\<lparr>read_csv := r, braceexpand := b, read_sizes := z, len_WebDataset := l\<rparr>
    else v\<lparr>read_csv := r, braceexpand := b, read_sizes := z, len_WebDataset := l\<rparr>) =
   (if c then u else v)\<lparr>read_csv := r, braceexpand := b, read_sizes := z, len_WebDataset := l\<rparr>"
  by simp

lemma get_data_reads:
  "get_data
     (w\<lparr>read_csv := r, braceexpand := b, read_sizes := z, len_WebDataset := l\<rparr>)
     (a\<lparr>train_data := td, val_data := vd, csv_img_key := ik, csv_caption_key := ck,
        csv_separator := sep, path_data := pd\<rparr>) fns =
   get_data w a fns"
proof -
  let ?w = "w\<lparr>read_csv := r, braceexpand := b, read_sizes := z, len_WebDataset := l\<rparr>"
  let ?a = "a\<lparr>train_data := td, val_data := vd, csv_img_key := ik, csv_caption_key := ck,
        csv_separator := sep, path_data := pd\<rparr>"
  have f: "train_index ?a = train_index a" "val_index ?a = val_index a"
    "imagenet_val ?a = imagenet_val a" "imagenet_v2 ?a = imagenet_v2 a" "debug_run ?a = debug_run a"
    by simp_all
  show ?thesis
    unfolding get_data_def Let_def f
    by (simp only: rng_skip_other_fields if_world_other_fields
        get_cellpainting_dataset_reads get_imagenet_reads)
qed

text \<open>
  C10. When \<^verbatim>\<open>get_data\<close> returns, the dictionary has the key "train" exactly when
  \<^verbatim>\<open>args.train_index\<close> is truthy and "val" exactly when \<^verbatim>\<open>args.val_index\<close> is truthy, both
  built by \<^verbatim>\<open>get_cellpainting_dataset\<close>; "imagenet-val" exactly when \<^verbatim>\<open>args.imagenet_val\<close>
  is not None and "imagenet-v2" exactly when \<^verbatim>\<open>args.imagenet_v2\<close> is not None, both built
  by \<^verbatim>\<open>get_imagenet\<close>; it has no other key. The result does not depend on what the CSV and
  web dataset constructors read: the CSV file, the brace expansion, the size manifest, the
  length of a web dataset, nor \<^verbatim>\<open>train_data\<close>, \<^verbatim>\<open>val_data\<close> and the CSV options.
\<close>

theorem get_data_keys:
  assumes "get_data w a fns = Inr d"
  shows "(d ''train'' \<noteq> None) = truthy (train_index a) \<and>
         (d ''val'' \<noteq> None) = truthy (val_index a) \<and>
         (d ''imagenet-val'' \<noteq> None) = (imagenet_val a \<noteq> None) \<and>
         (d ''imagenet-v2'' \<noteq> None) = (imagenet_v2 a \<noteq> None) \<and>
         dom d \<subseteq> {''train'', ''val'', ''imagenet-val'', ''imagenet-v2''} \<and>
         (truthy (train_index a) \<longrightarrow>
            (\<exists>info. d ''train'' = Some info \<and>
               get_cellpainting_dataset w a (fst fns) True = Inr info)) \<and>
         (truthy (val_index a) \<longrightarrow>
            (\<exists>info. d ''val'' = Some info \<and>
               get_cellpainting_dataset
                 (if truthy (train_index a) then rng_skip (if debug_run a then 1 else 0) w else w)
                 a (snd fns) False = Inr info)) \<and>
         (imagenet_val a \<noteq> None \<longrightarrow>
            (\<exists>info w'. d ''imagenet-val'' = Some info \<and> get_imagenet w' a fns ''val'' = Inr info)) \<and>
         (imagenet_v2 a \<noteq> None \<longrightarrow>
            (\<exists>info w'. d ''imagenet-v2'' = Some info \<and> get_imagenet w' a fns ''v2'' = Inr info)) \<and>
         (\<forall>r b z l td vd ik ck sep pd.
            get_data (w\<lparr>read_csv := r, braceexpand := b, read_sizes := z, len_WebDataset := l\<rparr>)
              (a\<lparr>train_data := td, val_data := vd, csv_img_key := ik, csv_caption_key := ck,
                 csv_separator := sep, path_data := pd\<rparr>) fns = Inr d)"
proof -
  note t = get_data_train [OF assms] and v = get_data_val [OF assms]
    and iv = get_data_imagenet_val [OF assms] and i2 = get_data_imagenet_v2 [OF assms]
  have 1: "(d ''train'' \<noteq> None) = truthy (train_index a)"
    using t by (auto split: if_splits)
  have 2: "(d ''val'' \<noteq> None) = truthy (val_index a)"
    using v by (auto split: if_splits)
  have 3: "(d ''imagenet-val'' \<noteq> None) = (imagenet_val a \<noteq> None)"
    using iv by (auto split: if_splits)
  have 4: "(d ''imagenet-v2'' \<noteq> None) = (imagenet_v2 a \<noteq> None)"
    using i2 by (auto split: if_splits)
  have 5: "truthy (train_index a) \<longrightarrow>
            (\<exists>info. d ''train'' = Some info \<and>
               get_cellpainting_dataset w a (fst fns) True = Inr info)"
    using t by (simp split: if_splits)
  have 6: "truthy (val_index a) \<longrightarrow>
            (\<exists>info. d ''val'' = Some info \<and>
               get_cellpainting_dataset
                 (if truthy (train_index a) then rng_skip (if debug_run a then 1 else 0) w else w)
                 a (snd fns) False = Inr info)"
    using v by (simp split: if_splits)
  have 7: "imagenet_val a \<noteq> None \<longrightarrow>
            (\<exists>info w'. d ''imagenet-val'' = Some info \<and> get_imagenet w' a fns ''val'' = Inr info)"
    using iv by (simp split: if_splits)
  have 8: "imagenet_v2 a \<noteq> None \<longrightarrow>
            (\<exists>info w'. d ''imagenet-v2'' = Some info \<and> get_imagenet w' a fns ''v2'' = Inr info)"
    using i2 by (simp split: if_splits)
  have 9: "\<forall>r b z l td vd ik ck sep pd.
            get_data (w\<lparr>read_csv := r, braceexpand := b, read_sizes := z, len_WebDataset := l\<rparr>)
              (a\<lparr>train_data := td, val_data := vd, csv_img_key := ik, csv_caption_key := ck,
                 csv_separator := sep, path_data := pd\<rparr>) fns = Inr d"
    by (simp only: get_data_reads assms) simp
  from 1 2 3 4 get_data_dom [OF assms] 5 6 7 8 9 show ?thesis
    by (intro conjI)
qed

theorem get_data_keys_witness:
  "\<exists>d. get_data demo_world demo_args ((), ()) = Inr d \<and>
       d ''train'' \<noteq> None \<and> d ''val'' = None \<and>
       d ''imagenet-val'' \<noteq> None \<and> d ''imagenet-v2'' = None \<and>
       truthy (train_index demo_args) \<and> \<not> truthy (val_index demo_args) \<and>
       imagenet_val demo_args \<noteq> None \<and> imagenet_v2 demo_args = None"
proof -
  have c: "\<exists>i. get_cellpainting_dataset demo_world demo_args () True = Inr i"
    by (simp add: get_cellpainting_dataset_def demo_world_def demo_args_def truthy_def
        debug_subset_def DataLoader_def DataLoader_record_def Let_def)
  have w: "rng_skip 0 demo_world = demo_world"
    by (simp add: rng_skip_def demo_world_def)
  have i: "\<exists>i. get_imagenet demo_world demo_args ((), ()) ''val'' = Inr i"
    by (simp add: get_imagenet_def get_imagenet_sampler_def demo_world_def demo_args_def
        debug_subset_def DataLoader_def DataLoader_record_def Let_def)
  have f: "truthy (train_index demo_args)" "\<not> truthy (val_index demo_args)"
    "imagenet_val demo_args \<noteq> None" "imagenet_v2 demo_args = None" "\<not> debug_run demo_args"
    by (simp_all add: demo_args_def truthy_def)
  from c i obtain i1 i3 where
    "get_cellpainting_dataset demo_world demo_args () True = Inr i1"
    "get_imagenet demo_world demo_args ((), ()) ''val'' = Inr i3"
    by blast
  then have "\<exists>d. get_data demo_world demo_args ((), ()) = Inr d"
    using f by (simp add: get_data_def w)
  then obtain d where d: "get_data demo_world demo_args ((), ()) = Inr d"
    by blast
  show ?thesis
    using get_data_keys [OF d] d f by auto
qed

section \<open>The ImageNet training sampler\<close>























lemma get_imagenet_sampler_train_Inr:
  assumes "get_imagenet_sampler w a fns ''train'' = Inr (ds, smp)"
  shows "\<exists>path targets.
           imagenet_train a = Some path \<and> path \<noteq> [] \<and> new_ImageFolder w path = Inr targets \<and>
           \<not> debug_run a \<and> ds = ImageFolder path (fst fns) targets \<and>
           smp = Some (SubsetRandomSampler (imagenet_train_indices (np_shuffle w) 0 targets))"
proof -
  from assms obtain path targets where p: "imagenet_train a = Some path" "path \<noteq> []"
    and f: "new_ImageFolder w path = Inr targets"
    and d: "debug_subset w a 0 (ImageFolder path (fst fns) targets) = Inr ds"
    and r: "(case py_targets ds of
               Inl e \<Rightarrow> Inl e
             | Inr targets \<Rightarrow>
                 Inr (ds, Some (SubsetRandomSampler
                   (imagenet_train_indices (np_shuffle w) (if debug_run a then 1 else 0) targets))))
             = Inr (ds, smp)"
    by (auto simp: get_imagenet_sampler_def Let_def split: if_splits sum.splits option.splits)
  have nd: "\<not> debug_run a"
  proof
    assume "debug_run a"
    with debug_subset_Inr [OF d] obtain idcs where "ds = Subset (ImageFolder path (fst fns) targets) idcs"
      by auto
    with r show False
      by simp
  qed
  with debug_subset_Inr [OF d] have "ds = ImageFolder path (fst fns) targets"
    by simp
  with r nd p f show ?thesis
    by auto
qed


text \<open>The loader is then built with \<^verbatim>\<open>shuffle=True\<close> together with that sampler, which the
  constructor refuses: for the "train" split \<^verbatim>\<open>get_imagenet\<close> itself never returns.\<close>

lemma get_imagenet_train_never_returns: "get_imagenet w a fns ''train'' \<noteq> Inr info"
proof
  assume h: "get_imagenet w a fns ''train'' = Inr info"
  then obtain ds smp loader where s: "get_imagenet_sampler w a fns ''train'' = Inr (ds, smp)"
    and l: "DataLoader ds (Some (batch_size_eval a)) True (workers a) False smp False = Inr loader"
    by (auto simp: get_imagenet_def split: sum.splits prod.splits)
  from get_imagenet_sampler_train_Inr [OF s] have "smp \<noteq> None"
    by auto
  with l show False
    by (auto simp: DataLoader_def split: if_splits)
qed



end
